theory Spec2Isabelle
  imports Complex_Main
begin

section \<open>HonestLevy: the content scripts, embedded\<close>

text \<open>
  The repository holds two content scripts, both in \<^verbatim>\<open>src/unnamed/part_000\<close>: the
  HonestLevy script (lines 1 to 386) and its older sibling, the GothamClean script (lines
  388 to 724). A definition below carries the name of the JavaScript function it embeds;
  where the two scripts give different bodies to one name, the GothamClean body carries
  the prefix \<open>gc_\<close>.

  JavaScript strings are modelled as \<^typ>\<open>string\<close>. Every character the scripts compare
  against is ASCII, and the patterns carry no Unicode flag.
\<close>

subsection \<open>Strings\<close>

text \<open>
  \<^verbatim>\<open>s.startsWith(p)\<close> and \<^verbatim>\<open>s.includes(sub)\<close>. The word \<open>includes\<close> is reserved in
  Isabelle, hence the suffix.
\<close>

fun startsWith :: "string \<Rightarrow> string \<Rightarrow> bool" where
  "startsWith s [] = True"
| "startsWith [] (p # ps) = False"
| "startsWith (c # cs) (p # ps) = (c = p \<and> startsWith cs ps)"

fun includesStr :: "string \<Rightarrow> string \<Rightarrow> bool" where
  "includesStr [] sub = (sub = [])"
| "includesStr (c # cs) sub = (startsWith (c # cs) sub \<or> includesStr cs sub)"

text \<open>\<^verbatim>\<open>s.toLowerCase()\<close>, on the ASCII letters.\<close>

definition lowerChar :: "char \<Rightarrow> char" where
  "lowerChar c =
     (case map_of (zip ''ABCDEFGHIJKLMNOPQRSTUVWXYZ'' ''abcdefghijklmnopqrstuvwxyz'') c of
        Some l \<Rightarrow> l
      | None \<Rightarrow> c)"

definition toLowerCase :: "string \<Rightarrow> string" where
  "toLowerCase s = map lowerChar s"

subsection \<open>The Identifier Extractor\<close>

text \<open>The character class \<^verbatim>\<open>[a-zA-Z0-9_-]\<close>.\<close>

definition idChar :: "char \<Rightarrow> bool" where
  "idChar c =
     (let n = (of_char c :: nat) in
        (97 \<le> n \<and> n \<le> 122) \<or> (65 \<le> n \<and> n \<le> 90) \<or> (48 \<le> n \<and> n \<le> 57)
        \<or> c = CHR ''_'' \<or> c = CHR ''-'')"

text \<open>The capture group \<^verbatim>\<open>([a-zA-Z0-9_-]{11})\<close>, matched at the head of a string.\<close>

definition capture11 :: "string \<Rightarrow> string option" where
  "capture11 s =
     (let tok = take 11 s in
        if length tok = 11 \<and> list_all idChar tok then Some tok else None)"

text \<open>A literal followed by the capture group, matched at the head of a string.\<close>

definition literalThenId :: "string \<Rightarrow> string \<Rightarrow> string option" where
  "literalThenId lit s =
     (if startsWith s lit then capture11 (drop (length lit) s) else None)"

text \<open>
  The four patterns of \<^verbatim>\<open>extractVideoId\<close>, each as its match at the head of a string:
  \<^verbatim>\<open>/[?&]v=([a-zA-Z0-9_-]{11})/\<close>, \<^verbatim>\<open>/youtu\.be\/([a-zA-Z0-9_-]{11})/\<close>,
  \<^verbatim>\<open>/\/shorts\/([a-zA-Z0-9_-]{11})/\<close> and \<^verbatim>\<open>/\/embed\/([a-zA-Z0-9_-]{11})/\<close>.
\<close>

definition watchPattern :: "string \<Rightarrow> string option" where
  "watchPattern s =
     (case s of
        [] \<Rightarrow> None
      | c # rest \<Rightarrow>
          if c = CHR ''?'' \<or> c = CHR ''&'' then literalThenId ''v='' rest else None)"

definition shortLinkPattern :: "string \<Rightarrow> string option" where
  "shortLinkPattern s = literalThenId ''youtu.be/'' s"

definition shortsPattern :: "string \<Rightarrow> string option" where
  "shortsPattern s = literalThenId ''/shorts/'' s"

definition embedPattern :: "string \<Rightarrow> string option" where
  "embedPattern s = literalThenId ''/embed/'' s"

definition patterns :: "(string \<Rightarrow> string option) list" where
  "patterns = [watchPattern, shortLinkPattern, shortsPattern, embedPattern]"

text \<open>
  \<^verbatim>\<open>url.match(pattern)\<close> for a pattern without the global flag: the match at the leftmost
  position where the pattern matches; the value is the first capture group.
\<close>

fun match :: "(string \<Rightarrow> string option) \<Rightarrow> string \<Rightarrow> string option" where
  "match pat [] = pat []"
| "match pat (c # cs) =
     (case pat (c # cs) of Some tok \<Rightarrow> Some tok | None \<Rightarrow> match pat cs)"

text \<open>The loop \<^verbatim>\<open>for (const pattern of patterns)\<close>.\<close>

fun firstMatch :: "(string \<Rightarrow> string option) list \<Rightarrow> string \<Rightarrow> string option" where
  "firstMatch [] url = None"
| "firstMatch (pat # pats) url =
     (case match pat url of Some tok \<Rightarrow> Some tok | None \<Rightarrow> firstMatch pats url)"

text \<open>
  \<^verbatim>\<open>extractVideoId(url)\<close>. The argument is \<open>None\<close> for \<^verbatim>\<open>null\<close> and
  \<^verbatim>\<open>undefined\<close>; \<^verbatim>\<open>!url\<close> also holds of the empty string.
\<close>

definition extractVideoId :: "string option \<Rightarrow> string option" where
  "extractVideoId url =
     (case url of
        None \<Rightarrow> None
      | Some u \<Rightarrow> if u = [] then None else firstMatch patterns u)"

text \<open>
  The URL shapes in the words of the specification, for stating what the extractor
  returns: at position \<open>i\<close> of \<open>url\<close> stands the literal \<open>lit\<close>, followed by the 11
  identifier characters \<open>tok\<close> (more identifier characters may follow). The watch shape
  is the query parameter \<^verbatim>\<open>v=\<close>, after \<^verbatim>\<open>?\<close> or \<^verbatim>\<open>&\<close>. A shape is absent from a URL
  when it stands at no position, and \<open>tok\<close> is its leftmost token when it stands with
  \<open>tok\<close> at a position before which it does not stand.
\<close>

definition shapeAt :: "string \<Rightarrow> string \<Rightarrow> nat \<Rightarrow> string \<Rightarrow> bool" where
  "shapeAt lit url i tok \<longleftrightarrow>
     (\<exists>pre rest. url = pre @ lit @ tok @ rest \<and> length pre = i \<and>
                 length tok = 11 \<and> list_all idChar tok)"

definition watchShapeAt :: "string \<Rightarrow> nat \<Rightarrow> string \<Rightarrow> bool" where
  "watchShapeAt url i tok \<longleftrightarrow> shapeAt ''?v='' url i tok \<or> shapeAt ''&v='' url i tok"

definition leftmost :: "(string \<Rightarrow> nat \<Rightarrow> string \<Rightarrow> bool) \<Rightarrow> string \<Rightarrow> string \<Rightarrow> bool" where
  "leftmost shape url tok \<longleftrightarrow> (\<exists>i. shape url i tok \<and> (\<forall>j<i. \<forall>t. \<not> shape url j t))"

definition absent :: "(string \<Rightarrow> nat \<Rightarrow> string \<Rightarrow> bool) \<Rightarrow> string \<Rightarrow> bool" where
  "absent shape url \<longleftrightarrow> (\<forall>i t. \<not> shape url i t)"


subsection \<open>The page, as the scripts read and write it\<close>

text \<open>
  A DOM node is known by its identity. Of a node the scripts read and write
  \<^verbatim>\<open>textContent\<close>, read the \<^verbatim>\<open>href\<close> property (\<open>None\<close> where the node has none:
  \<^verbatim>\<open>undefined\<close>) and read and write attributes (\<^verbatim>\<open>getAttribute\<close> gives \<^verbatim>\<open>null\<close>,
  here \<open>None\<close>, for an attribute that is not set).
\<close>

type_synonym node = nat

record element =
  textContent :: string
  href :: "string option"
  attributes :: "string \<rightharpoonup> string"

record rect =
  rect_width :: real
  rect_height :: real
  rect_top :: real
  rect_bottom :: real

text \<open>
  The browser's side of the page is a parameter of the model: which node a selector
  finds inside a node or in the document, the rectangle of a node, the address of the
  page and the height of the window. The scripts write the text of title elements and
  attributes named \<^verbatim>\<open>data-...\<close>; their selectors read tag names, ids, classes and
  \<^verbatim>\<open>href\<close> attributes. The model therefore keeps the answers to selectors fixed under
  the scripts' writes; the host page changes them by replacing the page. (Assigning to
  \<^verbatim>\<open>textContent\<close> also removes the children of the node: a title element is taken to
  have no child that one of the scripts' selectors finds. The text of each node is kept
  by itself; the scripts read the text of title elements and of channel elements only.)
\<close>

record page =
  location_href :: string
  innerHeight :: real
  elements :: "node \<Rightarrow> element"
  querySelector :: "node \<Rightarrow> string \<Rightarrow> node option"
  querySelectorAll :: "node \<Rightarrow> string \<Rightarrow> node list"
  documentQuerySelector :: "string \<Rightarrow> node option"
  documentQuerySelectorAll :: "string \<Rightarrow> node list"
  getBoundingClientRect :: "node \<Rightarrow> rect"

definition setTextContent :: "node \<Rightarrow> string \<Rightarrow> page \<Rightarrow> page" where
  "setTextContent n t p =
     p\<lparr>elements := (elements p)(n := (elements p n)\<lparr>textContent := t\<rparr>)\<rparr>"

definition setAttribute :: "node \<Rightarrow> string \<Rightarrow> string \<Rightarrow> page \<Rightarrow> page" where
  "setAttribute n name v p =
     p\<lparr>elements :=
         (elements p)(n := (elements p n)\<lparr>attributes := (attributes (elements p n))(name \<mapsto> v)\<rparr>)\<rparr>"

definition getAttribute :: "page \<Rightarrow> node \<Rightarrow> string \<Rightarrow> string option" where
  "getAttribute p n name = attributes (elements p n) name"

text \<open>\<^verbatim>\<open>element.href || ''\<close>: the empty string for a missing or empty \<^verbatim>\<open>href\<close>.\<close>

definition hrefOrEmpty :: "page \<Rightarrow> node \<Rightarrow> string" where
  "hrefOrEmpty p n = (case href (elements p n) of None \<Rightarrow> [] | Some h \<Rightarrow> h)"

text \<open>
  A record of the title mapping is a JSON object; the model keeps its string-valued
  fields. \<^verbatim>\<open>titleData.clean_title\<close> is \<open>None\<close> (\<^verbatim>\<open>undefined\<close>) for a record without
  that field. The mapping itself, \<^verbatim>\<open>titlesCache\<close>, is modelled as the map that gives for
  a key the value \<^verbatim>\<open>titlesCache[key]\<close> evaluates to, and \<open>None\<close> where that value is
  \<^verbatim>\<open>undefined\<close> or falsy, which is what \<^verbatim>\<open>!titleData\<close> tests.
\<close>

type_synonym titleData = "string \<rightharpoonup> string"

text \<open>
  The object literal \<^verbatim>\<open>{}\<close> has no key of its own, but a read of a property goes on to
  \<^verbatim>\<open>Object.prototype\<close>: for each name defined there it gives a function (for
  \<^verbatim>\<open>__proto__\<close> the prototype itself), a truthy value that has no field
  \<^verbatim>\<open>clean_title\<close>. Of these names \<^verbatim>\<open>constructor\<close> has 11 identifier characters, so
  the extractor can return it.
\<close>

definition objectPrototypeNames :: "string list" where
  "objectPrototypeNames =
     [''constructor'', ''__defineGetter__'', ''__defineSetter__'', ''hasOwnProperty'',
      ''__lookupGetter__'', ''__lookupSetter__'', ''isPrototypeOf'', ''propertyIsEnumerable'',
      ''toString'', ''valueOf'', ''__proto__'', ''toLocaleString'']"

definition emptyObject :: "string \<rightharpoonup> titleData" where
  "emptyObject key = (if key \<in> set objectPrototypeNames then Some Map.empty else None)"

definition clean_title :: "titleData \<Rightarrow> string option" where
  "clean_title titleData = titleData ''clean_title''"

text \<open>
  Assigning \<^verbatim>\<open>undefined\<close> to \<^verbatim>\<open>textContent\<close> empties the node (the attribute is a
  nullable string, and \<^verbatim>\<open>null\<close> stands for the empty string).
\<close>

definition textOf :: "string option \<Rightarrow> string" where
  "textOf v = (case v of None \<Rightarrow> [] | Some t \<Rightarrow> t)"

text \<open>The messages of \<^verbatim>\<open>chrome.runtime.sendMessage\<close>, and how a call ends.\<close>

datatype message = GetTitles | IncrementReplacedCount nat

datatype js_error = TypeError

datatype outcome = Returned | Threw js_error

subsection \<open>The HonestLevy content script\<close>

definition GOTHAMCHESS_CHANNEL_ID :: string where
  "GOTHAMCHESS_CHANNEL_ID = ''UCQHX6ViZmPsWiYSFAyS0a3Q''"

definition GOTHAMCHESS_HANDLE :: string where
  "GOTHAMCHESS_HANDLE = ''@GothamChess''"

definition GOTHAMCHESS_NAMES :: "string list" where
  "GOTHAMCHESS_NAMES = [''gothamchess'', ''gotham chess'', ''levy rozman'']"

text \<open>
  The module's variables, the page and the messages sent so far. \<^verbatim>\<open>processedVideoIds\<close>
  is a \<^verbatim>\<open>Map\<close> from container to video id. The counter is a JavaScript number, exact
  on the naturals below \<open>2 ^ 53\<close>; the model counts in \<^typ>\<open>nat\<close>.
\<close>

record state =
  titlesCache :: "string \<rightharpoonup> titleData"
  enabled :: bool
  replacedThisSession :: nat
  processedVideoIds :: "node \<rightharpoonup> string"
  dom :: page
  sent :: "message list"

definition isElementVisible :: "page \<Rightarrow> node \<Rightarrow> bool" where
  "isElementVisible p element =
     (let r = getBoundingClientRect p element in
        rect_width r > 0 \<and> rect_height r > 0 \<and> rect_top r < innerHeight p \<and> rect_bottom r > 0)"

definition isOnGothamChessPage :: "page \<Rightarrow> bool" where
  "isOnGothamChessPage p =
     (let url = location_href p in
        includesStr url ''/@GothamChess'' \<or>
        includesStr url ''/c/GothamChess'' \<or>
        includesStr url ''/channel/UCQHX6ViZmPsWiYSFAyS0a3Q'')"

definition channelSelectors :: "string list" where
  \<open>channelSelectors =
     [''ytd-channel-name'',
      ''#channel-name'',
      ''.ytd-channel-name'',
      ''a[href*="/@GothamChess"]'',
      ''a[href*="/channel/UCQHX6ViZmPsWiYSFAyS0a3Q"]'',
      ''a[href*="/c/GothamChess"]'']\<close>

text \<open>
  The first loop of \<^verbatim>\<open>isGothamChessVideo\<close>, over the channel selectors. The link is
  \<^verbatim>\<open>channelElement.href || channelElement.querySelector('a')?.href || ''\<close>.
\<close>

definition channelHref :: "page \<Rightarrow> node \<Rightarrow> string" where
  "channelHref p channelElement =
     (if hrefOrEmpty p channelElement \<noteq> [] then hrefOrEmpty p channelElement
      else case querySelector p channelElement ''a'' of
             None \<Rightarrow> []
           | Some a \<Rightarrow> hrefOrEmpty p a)"

fun channelLoop :: "page \<Rightarrow> node \<Rightarrow> string list \<Rightarrow> bool" where
  "channelLoop p container [] = False"
| "channelLoop p container (selector # selectors) =
     (case querySelector p container selector of
        None \<Rightarrow> channelLoop p container selectors
      | Some channelElement \<Rightarrow>
          (let text = toLowerCase (textContent (elements p channelElement));
               href = channelHref p channelElement
           in if list_ex (\<lambda>name. includesStr text name) GOTHAMCHESS_NAMES \<or>
                 includesStr href GOTHAMCHESS_HANDLE \<or>
                 includesStr href GOTHAMCHESS_CHANNEL_ID
              then True
              else channelLoop p container selectors))"

text \<open>The second loop, over \<^verbatim>\<open>container.querySelectorAll('a[href]')\<close>.\<close>

fun linksLoop :: "page \<Rightarrow> node list \<Rightarrow> bool" where
  "linksLoop p [] = False"
| "linksLoop p (link # links) =
     (let href = hrefOrEmpty p link
      in if includesStr href GOTHAMCHESS_HANDLE \<or>
            includesStr href GOTHAMCHESS_CHANNEL_ID \<or>
            includesStr href ''/c/GothamChess''
         then True
         else linksLoop p links)"

definition isGothamChessVideo :: "page \<Rightarrow> node \<Rightarrow> bool" where
  "isGothamChessVideo p container =
     (if isOnGothamChessPage p then True
      else if channelLoop p container channelSelectors then True
      else linksLoop p (querySelectorAll p container ''a[href]''))"

definition titleSelectors :: "string list" where
  "titleSelectors =
     [''#video-title'',
      ''a#video-title'',
      ''h3 a#video-title'',
      ''yt-formatted-string#video-title'',
      ''.title-and-badge a'',
      ''span#video-title'',
      ''a.yt-lockup-metadata-view-model-wiz__title'',
      ''a.yt-lockup-metadata-view-model__title'',
      ''.yt-lockup-metadata-view-model-wiz__title'',
      ''.yt-lockup-metadata-view-model__title'']"

text \<open>
  The loop of \<^verbatim>\<open>findTitleElement\<close>: the first selector that finds an element inside the
  container gives the result.
\<close>

fun firstElement :: "page \<Rightarrow> node \<Rightarrow> string list \<Rightarrow> node option" where
  "firstElement p container [] = None"
| "firstElement p container (selector # selectors) =
     (case querySelector p container selector of
        Some element \<Rightarrow> Some element
      | None \<Rightarrow> firstElement p container selectors)"

definition findTitleElement :: "page \<Rightarrow> node \<Rightarrow> node option" where
  "findTitleElement p container = firstElement p container titleSelectors"

definition linkSelectors :: "string list" where
  \<open>linkSelectors =
     [''a#video-title-link'',
      ''a#video-title'',
      ''a#thumbnail'',
      ''a[href*="/watch?v="]'',
      ''a[href*="/shorts/"]'']\<close>

text \<open>
  The loop of \<^verbatim>\<open>findVideoLink\<close>: \<^verbatim>\<open>if (element?.href) return element.href\<close> passes over
  a selector that finds nothing and over an element whose \<^verbatim>\<open>href\<close> is missing or empty.
\<close>

fun firstHref :: "page \<Rightarrow> node \<Rightarrow> string list \<Rightarrow> string option" where
  "firstHref p container [] = None"
| "firstHref p container (selector # selectors) =
     (case querySelector p container selector of
        None \<Rightarrow> firstHref p container selectors
      | Some element \<Rightarrow>
          if hrefOrEmpty p element \<noteq> [] then Some (hrefOrEmpty p element)
          else firstHref p container selectors)"

definition findVideoLink :: "page \<Rightarrow> node \<Rightarrow> string option" where
  "findVideoLink p container = firstHref p container linkSelectors"

text \<open>
  \<^verbatim>\<open>processVideoCard(container)\<close>. After the writes, the \<^verbatim>\<open>console.log\<close> line evaluates
  \<^verbatim>\<open>titleData.clean_title.substring(0, 30)\<close>, which throws a \<^verbatim>\<open>TypeError\<close> when the
  record has no \<^verbatim>\<open>clean_title\<close>; the message to the background script is then not sent.
\<close>

definition processVideoCard :: "node \<Rightarrow> state \<Rightarrow> outcome \<times> state" where
  "processVideoCard container s =
     (let videoLink = findVideoLink (dom s) container;
          videoId = extractVideoId videoLink
      in case videoId of
           None \<Rightarrow> (Returned, s)
         | Some vid \<Rightarrow>
            (if processedVideoIds s container = Some vid then (Returned, s)
             else
              (case titlesCache s vid of
                 None \<Rightarrow> (Returned, s)
               | Some titleData \<Rightarrow>
                  (case findTitleElement (dom s) container of
                     None \<Rightarrow> (Returned, s)
                   | Some titleElement \<Rightarrow>
                      (if \<not> isElementVisible (dom s) container then (Returned, s)
                       else
                        (let originalTitle = textContent (elements (dom s) titleElement)
                         in if Some originalTitle = clean_title titleData then (Returned, s)
                            else
                             (let d1 = setTextContent titleElement
                                         (textOf (clean_title titleData)) (dom s);
                                  d2 = setAttribute titleElement
                                         ''data-honestlevy-original'' originalTitle d1;
                                  d3 = setAttribute titleElement
                                         ''data-honestlevy-replaced'' ''true'' d2;
                                  s' = s\<lparr>dom := d3,
                                         processedVideoIds :=
                                           (processedVideoIds s)(container \<mapsto> vid),
                                         replacedThisSession := replacedThisSession s + 1\<rparr>
                              in (case clean_title titleData of
                                    None \<Rightarrow> (Threw TypeError, s')
                                  | Some t \<Rightarrow>
                                      (Returned,
                                       s'\<lparr>sent := sent s' @ [IncrementReplacedCount 1]\<rparr>)))))))))"

definition watchTitleSelectors :: "string list" where
  "watchTitleSelectors =
     [''h1.ytd-watch-metadata yt-formatted-string'',
      ''h1.title yt-formatted-string'',
      ''h1 yt-formatted-string.ytd-watch-metadata'',
      ''#title h1 yt-formatted-string'']"

text \<open>
  The loop of \<^verbatim>\<open>processWatchPageTitle\<close>: the first selector that finds an element in
  the document ends the loop, by \<^verbatim>\<open>return\<close> or by \<^verbatim>\<open>break\<close>.
\<close>

fun watchTitleLoop :: "string \<Rightarrow> titleData \<Rightarrow> string list \<Rightarrow> state \<Rightarrow> state" where
  "watchTitleLoop videoId titleData [] s = s"
| "watchTitleLoop videoId titleData (selector # selectors) s =
     (case documentQuerySelector (dom s) selector of
        None \<Rightarrow> watchTitleLoop videoId titleData selectors s
      | Some titleElement \<Rightarrow>
          if getAttribute (dom s) titleElement ''data-honestlevy-video-id'' = Some videoId then s
          else
            (let originalTitle = textContent (elements (dom s) titleElement)
             in if Some originalTitle \<noteq> clean_title titleData
                then
                  (let d1 = setTextContent titleElement (textOf (clean_title titleData)) (dom s);
                       d2 = setAttribute titleElement ''data-honestlevy-original'' originalTitle d1;
                       d3 = setAttribute titleElement ''data-honestlevy-video-id'' videoId d2
                   in s\<lparr>dom := d3, sent := sent s @ [IncrementReplacedCount 1]\<rparr>)
                else s))"

definition processWatchPageTitle :: "state \<Rightarrow> state" where
  "processWatchPageTitle s =
     (case extractVideoId (Some (location_href (dom s))) of
        None \<Rightarrow> s
      | Some videoId \<Rightarrow>
          (case titlesCache s videoId of
             None \<Rightarrow> s
           | Some titleData \<Rightarrow> watchTitleLoop videoId titleData watchTitleSelectors s))"

definition containerSelectors :: "string list" where
  "containerSelectors =
     [''ytd-rich-item-renderer'',
      ''ytd-video-renderer'',
      ''ytd-compact-video-renderer'',
      ''yt-lockup-view-model'',
      ''ytd-grid-video-renderer'',
      ''ytd-playlist-video-renderer'']"

text \<open>
  \<^verbatim>\<open>containers.forEach(processVideoCard)\<close> and the loop over the container selectors:
  an exception ends both, and the writes made before it stay.
\<close>

fun forEachCard :: "node list \<Rightarrow> state \<Rightarrow> outcome \<times> state" where
  "forEachCard [] s = (Returned, s)"
| "forEachCard (container # containers) s =
     (case processVideoCard container s of
        (Threw e, s') \<Rightarrow> (Threw e, s')
      | (Returned, s') \<Rightarrow> forEachCard containers s')"

fun scanLoop :: "string list \<Rightarrow> state \<Rightarrow> outcome \<times> state" where
  "scanLoop [] s = (Returned, s)"
| "scanLoop (selector # selectors) s =
     (case forEachCard (documentQuerySelectorAll (dom s) selector) s of
        (Threw e, s') \<Rightarrow> (Threw e, s')
      | (Returned, s') \<Rightarrow> scanLoop selectors s')"

definition scanPage :: "state \<Rightarrow> outcome \<times> state" where
  "scanPage s =
     (if \<not> enabled s then (Returned, s)
      else case scanLoop containerSelectors s of
             (Threw e, s') \<Rightarrow> (Threw e, s')
           | (Returned, s') \<Rightarrow> (Returned, processWatchPageTitle s'))"

subsection \<open>The HonestLevy script's wiring: observer, listeners, timers, settings\<close>

text \<open>
  One entry of the list a \<^verbatim>\<open>MutationObserver\<close> callback receives.
\<close>

record mutation =
  addedNodes :: "node list"
  mutation_type :: string
  attributeName :: "string option"

text \<open>
  What the browser holds for one running script: whether \<^verbatim>\<open>setupObserver\<close> has
  installed the observer, whether \<^verbatim>\<open>setupNavigationListener\<close> has added its three
  listeners, and the timers that are pending (\<^verbatim>\<open>window.honestLevyScanTimeout\<close> and
  \<^verbatim>\<open>scrollTimeout\<close> are cleared before they are set again, so at most one of each is
  pending; the navigation handlers add a timer at each event). Time itself is not
  modelled: a pending timer fires when the event of its firing is delivered.
  \<open>scans\<close> is not a variable of the script: it counts the calls of \<^verbatim>\<open>scanPage\<close>.
\<close>

record runtime =
  script :: state
  observing :: bool
  listening :: bool
  honestLevyScanTimeout :: bool
  navigationTimeouts :: nat
  scrollTimeout :: bool
  scans :: nat

definition callScanPage :: "runtime \<Rightarrow> outcome \<times> runtime" where
  "callScanPage rt =
     (case scanPage (script rt) of
        (out, s') \<Rightarrow> (out, rt\<lparr>script := s', scans := scans rt + 1\<rparr>))"

text \<open>The loop of the observer's callback, which sets \<^verbatim>\<open>shouldScan\<close>.\<close>

fun shouldScan :: "mutation list \<Rightarrow> bool" where
  "shouldScan [] = False"
| "shouldScan (m # ms) =
     (if length (addedNodes m) > 0 then True
      else if mutation_type m = ''attributes'' \<and> attributeName m = Some ''href'' then True
      else shouldScan ms)"

definition observerCallback :: "mutation list \<Rightarrow> runtime \<Rightarrow> runtime" where
  "observerCallback mutations rt =
     (if \<not> enabled (script rt) then rt
      else if shouldScan mutations then rt\<lparr>honestLevyScanTimeout := True\<rparr>
      else rt)"

definition setupObserver :: "runtime \<Rightarrow> runtime" where
  "setupObserver rt = rt\<lparr>observing := True\<rparr>"

definition setupNavigationListener :: "runtime \<Rightarrow> runtime" where
  "setupNavigationListener rt = rt\<lparr>listening := True\<rparr>"

text \<open>
  The handlers of \<^verbatim>\<open>yt-navigate-finish\<close> and of \<^verbatim>\<open>popstate\<close> (the same body), and of
  \<^verbatim>\<open>scroll\<close>.
\<close>

definition onNavigation :: "runtime \<Rightarrow> runtime" where
  "onNavigation rt =
     rt\<lparr>script := (script rt)\<lparr>processedVideoIds := Map.empty\<rparr>,
        navigationTimeouts := navigationTimeouts rt + 1\<rparr>"

definition onScroll :: "runtime \<Rightarrow> runtime" where
  "onScroll rt = rt\<lparr>scrollTimeout := True\<rparr>"

text \<open>
  The answer to \<^verbatim>\<open>getTitles\<close>: \<^verbatim>\<open>response.titles\<close> (\<open>None\<close> when falsy) and
  \<^verbatim>\<open>response.enabled\<close> (\<open>None\<close> when it is not a boolean). \<^verbatim>\<open>init\<close> takes \<open>None\<close> for a
  call that throws inside the \<^verbatim>\<open>try\<close> block. An exception of the first scan leaves
  \<^verbatim>\<open>init\<close> before the observer and the listeners are set up.
\<close>

record response =
  response_titles :: "(string \<rightharpoonup> titleData) option"
  response_enabled :: "bool option"

text \<open>
  The two assignments in the \<^verbatim>\<open>try\<close> block of \<^verbatim>\<open>init\<close>:
  \<^verbatim>\<open>titlesCache = response.titles || {}\<close> and \<^verbatim>\<open>enabled = response.enabled !== false\<close>.
\<close>

definition received :: "response \<Rightarrow> state \<Rightarrow> state" where
  "received r s =
     s\<lparr>titlesCache := (case response_titles r of None \<Rightarrow> emptyObject | Some t \<Rightarrow> t),
       enabled := (response_enabled r \<noteq> Some False)\<rparr>"

definition init :: "response option \<Rightarrow> runtime \<Rightarrow> runtime" where
  "init resp rt =
     (let rt0 = rt\<lparr>script := (script rt)\<lparr>sent := sent (script rt) @ [GetTitles]\<rparr>\<rparr>
      in case resp of
           None \<Rightarrow> rt0
         | Some r \<Rightarrow>
            (let rt1 = rt0\<lparr>script := received r (script rt0)\<rparr>
             in if \<not> enabled (script rt1) then rt1
                else
                 (case callScanPage rt1 of
                    (Threw e, rt2) \<Rightarrow> rt2
                  | (Returned, rt2) \<Rightarrow> setupNavigationListener (setupObserver rt2))))"

text \<open>
  The argument of the \<^verbatim>\<open>chrome.storage.onChanged\<close> listener: for each of the two keys
  the script reads, \<open>None\<close> when the key did not change and otherwise its \<^verbatim>\<open>newValue\<close>
  (for \<^verbatim>\<open>enabled\<close> whether it is truthy, for \<^verbatim>\<open>titles\<close> \<open>None\<close> when it is falsy, so
  that \<^verbatim>\<open>|| {}\<close> takes its place).
  The listener is added when the script loads, outside \<^verbatim>\<open>init\<close>.
\<close>

record changes =
  changes_enabled :: "bool option"
  changes_titles :: "(string \<rightharpoonup> titleData) option option"

definition onStorageChanged :: "changes \<Rightarrow> string \<Rightarrow> runtime \<Rightarrow> runtime" where
  "onStorageChanged ch namespace rt =
     (if namespace \<noteq> ''local'' then rt
      else
       (let r1 =
              (case changes_enabled ch of
                 None \<Rightarrow> (Returned, rt)
               | Some newValue \<Rightarrow>
                  (let rt' = rt\<lparr>script := (script rt)\<lparr>enabled := newValue\<rparr>\<rparr>
                   in if newValue
                      then callScanPage
                             (rt'\<lparr>script := (script rt')\<lparr>processedVideoIds := Map.empty\<rparr>\<rparr>)
                      else (Returned, rt')))
        in case r1 of
             (Threw e, rt1) \<Rightarrow> rt1
           | (Returned, rt1) \<Rightarrow>
              (case changes_titles ch of
                 None \<Rightarrow> rt1
               | Some newValue \<Rightarrow>
                   snd (callScanPage
                          (rt1\<lparr>script := (script rt1)
                                 \<lparr>titlesCache :=
                                    (case newValue of None \<Rightarrow> emptyObject | Some t \<Rightarrow> t),
                                  processedVideoIds := Map.empty\<rparr>\<rparr>)))))"

text \<open>
  The events the browser delivers to the script. An event reaches a handler only when
  the handler was installed, and a timer fires only when it is pending. \<open>HostRenders\<close>
  is the host page replacing the page's content.
\<close>

datatype event =
    Mutations "mutation list"
  | YtNavigateFinish
  | Popstate
  | Scroll
  | ScanTimeoutFires
  | NavigationTimeoutFires
  | ScrollTimeoutFires
  | StorageChanged changes string
  | HostRenders page

fun dispatch :: "event \<Rightarrow> runtime \<Rightarrow> runtime" where
  "dispatch (Mutations ms) rt = (if observing rt then observerCallback ms rt else rt)"
| "dispatch YtNavigateFinish rt = (if listening rt then onNavigation rt else rt)"
| "dispatch Popstate rt = (if listening rt then onNavigation rt else rt)"
| "dispatch Scroll rt = (if listening rt then onScroll rt else rt)"
| "dispatch ScanTimeoutFires rt =
     (if honestLevyScanTimeout rt
      then snd (callScanPage (rt\<lparr>honestLevyScanTimeout := False\<rparr>))
      else rt)"
| "dispatch NavigationTimeoutFires rt =
     (if navigationTimeouts rt > 0
      then snd (callScanPage (rt\<lparr>navigationTimeouts := navigationTimeouts rt - 1\<rparr>))
      else rt)"
| "dispatch ScrollTimeoutFires rt =
     (if scrollTimeout rt
      then snd (callScanPage (rt\<lparr>scrollTimeout := False\<rparr>))
      else rt)"
| "dispatch (StorageChanged ch namespace) rt = onStorageChanged ch namespace rt"
| "dispatch (HostRenders p) rt = rt\<lparr>script := (script rt)\<lparr>dom := p\<rparr>\<rparr>"

fun run :: "event list \<Rightarrow> runtime \<Rightarrow> runtime" where
  "run [] rt = rt"
| "run (e # es) rt = run es (dispatch e rt)"

text \<open>
  The script as it is loaded into a page: the initial values of its variables
  (\<^verbatim>\<open>let titlesCache = {}\<close>, \<^verbatim>\<open>let enabled = true\<close>, and so on), nothing wired.
\<close>

definition loaded :: "page \<Rightarrow> runtime" where
  "loaded p =
     \<lparr>script = \<lparr>titlesCache = emptyObject, enabled = True, replacedThisSession = 0,
                 processedVideoIds = Map.empty, dom = p, sent = []\<rparr>,
      observing = False, listening = False, honestLevyScanTimeout = False,
      navigationTimeouts = 0, scrollTimeout = False, scans = 0\<rparr>"

text \<open>An event that comes from the page: anything but a change of the settings.\<close>

fun fromPage :: "event \<Rightarrow> bool" where
  "fromPage (StorageChanged ch namespace) = False"
| "fromPage e = True"

text \<open>
  Nothing is wired: no observer, no listeners, no pending timer.
\<close>

definition unwired :: "runtime \<Rightarrow> bool" where
  "unwired rt \<longleftrightarrow>
     \<not> observing rt \<and> \<not> listening rt \<and> \<not> honestLevyScanTimeout rt \<and>
     navigationTimeouts rt = 0 \<and> \<not> scrollTimeout rt"

subsection \<open>The GothamClean content script\<close>

text \<open>
  \<^verbatim>\<open>extractVideoId\<close> and \<^verbatim>\<open>findVideoLink\<close> are the same text in both scripts, and so are
  the two loops of \<^verbatim>\<open>isGothamChessVideo\<close>; the GothamClean classifier has no test of
  the page's address before them. \<^verbatim>\<open>processedElements\<close> is a \<^verbatim>\<open>WeakSet\<close> of containers.
\<close>

record gc_state =
  gc_titlesCache :: "string \<rightharpoonup> titleData"
  gc_enabled :: bool
  gc_replacedThisSession :: nat
  processedElements :: "node set"
  gc_dom :: page
  gc_sent :: "message list"

definition gc_isGothamChessVideo :: "page \<Rightarrow> node \<Rightarrow> bool" where
  "gc_isGothamChessVideo p container =
     (if channelLoop p container channelSelectors then True
      else linksLoop p (querySelectorAll p container ''a[href]''))"

definition gc_titleSelectors :: "string list" where
  "gc_titleSelectors =
     [''#video-title'',
      ''a#video-title'',
      ''h3 a#video-title'',
      ''yt-formatted-string#video-title'',
      ''.title-and-badge a'',
      ''span#video-title'']"

definition gc_findTitleElement :: "page \<Rightarrow> node \<Rightarrow> node option" where
  "gc_findTitleElement p container = firstElement p container gc_titleSelectors"

text \<open>
  \<^verbatim>\<open>processVideoCard(container)\<close> of GothamClean. Its \<^verbatim>\<open>console.log\<close> line only
  interpolates \<^verbatim>\<open>titleData.clean_title\<close>, so nothing in it throws.
\<close>

definition gc_processVideoCard :: "node \<Rightarrow> gc_state \<Rightarrow> gc_state" where
  "gc_processVideoCard container s =
     (if container \<in> processedElements s then s
      else if \<not> gc_isGothamChessVideo (gc_dom s) container then s
      else
       (let videoLink = findVideoLink (gc_dom s) container;
            videoId = extractVideoId videoLink
        in case videoId of
             None \<Rightarrow> s
           | Some vid \<Rightarrow>
              (case gc_titlesCache s vid of
                 None \<Rightarrow> s
               | Some titleData \<Rightarrow>
                  (case gc_findTitleElement (gc_dom s) container of
                     None \<Rightarrow> s
                   | Some titleElement \<Rightarrow>
                      (let originalTitle = textContent (elements (gc_dom s) titleElement)
                       in if Some originalTitle = clean_title titleData then s
                          else
                           (let d1 = setTextContent titleElement
                                       (textOf (clean_title titleData)) (gc_dom s);
                                d2 = setAttribute titleElement
                                       ''data-gothamclean-original'' originalTitle d1;
                                d3 = setAttribute titleElement
                                       ''data-gothamclean-replaced'' ''true'' d2
                            in s\<lparr>gc_dom := d3,
                                 processedElements := insert container (processedElements s),
                                 gc_replacedThisSession := gc_replacedThisSession s + 1,
                                 gc_sent := gc_sent s @ [IncrementReplacedCount 1]\<rparr>))))))"

text \<open>
  The loop of GothamClean's \<^verbatim>\<open>processWatchPageTitle\<close>: it passes over a selector that
  finds nothing and over an element whose \<^verbatim>\<open>data-gothamclean-replaced\<close> attribute is
  truthy (set, and not the empty string); the first other element ends the loop.
\<close>

fun gc_watchTitleLoop :: "titleData \<Rightarrow> string list \<Rightarrow> gc_state \<Rightarrow> gc_state" where
  "gc_watchTitleLoop titleData [] s = s"
| "gc_watchTitleLoop titleData (selector # selectors) s =
     (case documentQuerySelector (gc_dom s) selector of
        None \<Rightarrow> gc_watchTitleLoop titleData selectors s
      | Some titleElement \<Rightarrow>
         (if getAttribute (gc_dom s) titleElement ''data-gothamclean-replaced'' \<noteq> None \<and>
             getAttribute (gc_dom s) titleElement ''data-gothamclean-replaced'' \<noteq> Some []
          then gc_watchTitleLoop titleData selectors s
          else
           (let originalTitle = textContent (elements (gc_dom s) titleElement)
            in if Some originalTitle \<noteq> clean_title titleData
               then
                (let d1 = setTextContent titleElement
                            (textOf (clean_title titleData)) (gc_dom s);
                     d2 = setAttribute titleElement
                            ''data-gothamclean-original'' originalTitle d1;
                     d3 = setAttribute titleElement
                            ''data-gothamclean-replaced'' ''true'' d2
                 in s\<lparr>gc_dom := d3, gc_sent := gc_sent s @ [IncrementReplacedCount 1]\<rparr>)
               else s)))"

definition gc_processWatchPageTitle :: "gc_state \<Rightarrow> gc_state" where
  "gc_processWatchPageTitle s =
     (case extractVideoId (Some (location_href (gc_dom s))) of
        None \<Rightarrow> s
      | Some videoId \<Rightarrow>
         (case gc_titlesCache s videoId of
            None \<Rightarrow> s
          | Some titleData \<Rightarrow> gc_watchTitleLoop titleData watchTitleSelectors s))"

subsection \<open>Pages and states for the scenarios\<close>

text \<open>
  A page with one video card: node 10 is the card (\<^verbatim>\<open>ytd-rich-item-renderer\<close>), node 11
  its link (\<^verbatim>\<open>a#video-title-link\<close>), node 12 its title
  (\<^verbatim>\<open>yt-formatted-string#video-title\<close>), node 13 its \<^verbatim>\<open>ytd-channel-name\<close>, and node 14 the
  title of the watch page (\<^verbatim>\<open>h1.ytd-watch-metadata yt-formatted-string\<close>). The card is
  inside the viewport. The arguments are the address of the page, the link of the
  card, the text of the card's title and the text of the watch page's title.
\<close>

definition cardPage :: "string \<Rightarrow> string \<Rightarrow> string \<Rightarrow> string \<Rightarrow> page" where
  \<open>cardPage address link cardTitle watchTitle =
     \<lparr>location_href = address,
      innerHeight = 800,
      elements =
        (\<lambda>n. if n = 11 then \<lparr>textContent = cardTitle, href = Some link, attributes = Map.empty\<rparr>
             else if n = 12 then \<lparr>textContent = cardTitle, href = None, attributes = Map.empty\<rparr>
             else if n = 13 then \<lparr>textContent = ''GothamChess'', href = None, attributes = Map.empty\<rparr>
             else if n = 14 then \<lparr>textContent = watchTitle, href = None, attributes = Map.empty\<rparr>
             else \<lparr>textContent = [], href = None, attributes = Map.empty\<rparr>),
      querySelector =
        (\<lambda>n selector.
           if n = 10 \<and> (selector = ''a#video-title-link'' \<or> selector = ''a[href*="/watch?v="]'')
           then Some 11
           else if n = 10 \<and> (selector = ''#video-title'' \<or>
                              selector = ''yt-formatted-string#video-title'')
           then Some 12
           else if n = 10 \<and> selector = ''ytd-channel-name'' then Some 13
           else None),
      querySelectorAll = (\<lambda>n selector. if n = 10 \<and> selector = ''a[href]'' then [11] else []),
      documentQuerySelector =
        (\<lambda>selector. if selector = ''h1.ytd-watch-metadata yt-formatted-string''
                     then Some 14 else None),
      documentQuerySelectorAll =
        (\<lambda>selector. if selector = ''ytd-rich-item-renderer'' then [10] else []),
      getBoundingClientRect =
        (\<lambda>n. \<lparr>rect_width = 300, rect_height = 250, rect_top = 100, rect_bottom = 350\<rparr>)\<rparr>\<close>

text \<open>
  What the host page does to nodes it reuses: it gives a link a new target and a title
  a new text, and it changes the address on an in-page navigation. The attributes the
  scripts have set stay on the nodes.
\<close>

definition hostSetsHref :: "node \<Rightarrow> string \<Rightarrow> page \<Rightarrow> page" where
  "hostSetsHref n h p = p\<lparr>elements := (elements p)(n := (elements p n)\<lparr>href := Some h\<rparr>)\<rparr>"

definition hostSetsText :: "node \<Rightarrow> string \<Rightarrow> page \<Rightarrow> page" where
  "hostSetsText n t p = setTextContent n t p"

definition hostNavigates :: "string \<Rightarrow> page \<Rightarrow> page" where
  "hostNavigates address p = p\<lparr>location_href := address\<rparr>"

text \<open>
  The scenario of the specification: the card's link is
  \<^verbatim>\<open>https://x/watch?v=abcEFghiJKL\<close>, its title text is
  \<^verbatim>\<open>YOU WON'T BELIEVE THIS BLUNDER!!!\<close>, and the mapping has the one key
  \<^verbatim>\<open>abcEFghiJKL\<close>. The record of that key is the argument: the specification writes it
  with the field \<^verbatim>\<open>cleanTitle\<close>, the script reads the field \<^verbatim>\<open>clean_title\<close>.
\<close>

definition scenarioPage :: page where
  "scenarioPage =
     cardPage ''https://x/'' ''https://x/watch?v=abcEFghiJKL''
       ''YOU WON'T BELIEVE THIS BLUNDER!!!'' []"

definition scenarioState :: "titleData \<Rightarrow> state" where
  "scenarioState titleData =
     \<lparr>titlesCache = [''abcEFghiJKL'' \<mapsto> titleData], enabled = True,
      replacedThisSession = 0, processedVideoIds = Map.empty,
      dom = scenarioPage, sent = []\<rparr>"

definition specRecord :: titleData where
  "specRecord = [''cleanTitle'' \<mapsto> ''Magnus Resigns After 3 Moves'']"

definition codeRecord :: titleData where
  "codeRecord = [''clean_title'' \<mapsto> ''Magnus Resigns After 3 Moves'']"

text \<open>
  Two tracked videos, for the scenarios in which the host reuses a node for another video.
\<close>

definition twoTitles :: "string \<rightharpoonup> titleData" where
  "twoTitles =
     [''AAAAAAAAAAA'' \<mapsto> [''clean_title'' \<mapsto> ''Game A''],
      ''BBBBBBBBBBB'' \<mapsto> [''clean_title'' \<mapsto> ''Game B'']]"

definition pageA :: page where
  "pageA =
     cardPage ''https://www.youtube.com/watch?v=AAAAAAAAAAA''
       ''https://www.youtube.com/watch?v=AAAAAAAAAAA'' ''SHOCKING A'' ''SHOCKING A''"

text \<open>The host reuses the card (nodes 10 to 12) for video B.\<close>

definition recycleCard :: "page \<Rightarrow> page" where
  "recycleCard p =
     hostSetsText 12 ''SHOCKING B''
       (hostSetsHref 11 ''https://www.youtube.com/watch?v=BBBBBBBBBBB'' p)"

text \<open>The host navigates in the page to video B and reuses the watch title (node 14).\<close>

definition navigateToB :: "page \<Rightarrow> page" where
  "navigateToB p =
     hostSetsText 14 ''SHOCKING B''
       (hostNavigates ''https://www.youtube.com/watch?v=BBBBBBBBBBB'' p)"

definition gcStateA :: gc_state where
  "gcStateA =
     \<lparr>gc_titlesCache = twoTitles, gc_enabled = True, gc_replacedThisSession = 0,
      processedElements = {}, gc_dom = pageA, gc_sent = []\<rparr>"

definition stateA :: state where
  "stateA =
     \<lparr>titlesCache = twoTitles, enabled = True, replacedThisSession = 0,
      processedVideoIds = Map.empty, dom = pageA, sent = []\<rparr>"

text \<open>
  Each script after it has processed card 10 for video A and the host has reused the
  card for video B; and after it has replaced the watch title for video A and the host
  has navigated to video B.
\<close>

definition gcRecycled :: gc_state where
  "gcRecycled =
     (gc_processVideoCard 10 gcStateA)
       \<lparr>gc_dom := recycleCard (gc_dom (gc_processVideoCard 10 gcStateA))\<rparr>"

definition recycled :: state where
  "recycled =
     (snd (processVideoCard 10 stateA))
       \<lparr>dom := recycleCard (dom (snd (processVideoCard 10 stateA)))\<rparr>"

definition gcNavigated :: gc_state where
  "gcNavigated =
     (gc_processWatchPageTitle gcStateA)
       \<lparr>gc_dom := navigateToB (gc_dom (gc_processWatchPageTitle gcStateA))\<rparr>"

definition navigated :: state where
  "navigated =
     (processWatchPageTitle stateA)
       \<lparr>dom := navigateToB (dom (processWatchPageTitle stateA))\<rparr>"

text \<open>
  A card without any channel attribution (node 10 with nothing inside it), on the
  channel's own page.
\<close>

definition bareChannelPage :: page where
  "bareChannelPage =
     \<lparr>location_href = ''https://www.youtube.com/@GothamChess/videos'',
      innerHeight = 800,
      elements = (\<lambda>n. \<lparr>textContent = [], href = None, attributes = Map.empty\<rparr>),
      querySelector = (\<lambda>n selector. None),
      querySelectorAll = (\<lambda>n selector. []),
      documentQuerySelector = (\<lambda>selector. None),
      documentQuerySelectorAll =
        (\<lambda>selector. if selector = ''ytd-rich-item-renderer'' then [10] else []),
      getBoundingClientRect =
        (\<lambda>n. \<lparr>rect_width = 300, rect_height = 250, rect_top = 100, rect_bottom = 350\<rparr>)\<rparr>"

text \<open>The scenario's page with a card that has its link but no title element.\<close>

definition untitledPage :: page where
  "untitledPage =
     scenarioPage\<lparr>querySelector :=
       (\<lambda>n selector. if n = 10 \<and> selector = ''a#video-title-link'' then Some 11 else None)\<rparr>"

text \<open>
  The settings' push that turns the script on (the popup stores the one key
  \<^verbatim>\<open>enabled\<close>), an answer to \<^verbatim>\<open>getTitles\<close> with \<^verbatim>\<open>enabled\<close> false, and a run of
  events from the page: mutations with added nodes and with a changed \<^verbatim>\<open>href\<close>,
  navigations, a scroll, and the firing of each kind of timer.
\<close>

definition enablePush :: event where
  "enablePush = StorageChanged \<lparr>changes_enabled = Some True, changes_titles = None\<rparr> ''local''"

definition disabledResponse :: response where
  "disabledResponse =
     \<lparr>response_titles = Some [''abcEFghiJKL'' \<mapsto> codeRecord], response_enabled = Some False\<rparr>"

definition pageEvents :: "event list" where
  "pageEvents =
     [Mutations [\<lparr>addedNodes = [20], mutation_type = ''childList'', attributeName = None\<rparr>],
      ScanTimeoutFires, YtNavigateFinish, NavigationTimeoutFires, Popstate,
      NavigationTimeoutFires, Scroll, ScrollTimeoutFires,
      Mutations [\<lparr>addedNodes = [], mutation_type = ''attributes'', attributeName = Some ''href''\<rparr>],
      ScanTimeoutFires]"

text \<open>
  A card that links to \<^verbatim>\<open>watch?v=constructor\<close>, and an answer to \<^verbatim>\<open>getTitles\<close> that
  carries no titles, so that \<^verbatim>\<open>titlesCache\<close> stays \<^verbatim>\<open>{}\<close>.
\<close>

definition constructorPage :: page where
  "constructorPage =
     cardPage ''https://www.youtube.com/'' ''https://www.youtube.com/watch?v=constructor''
       ''A TITLE'' []"

definition noTitlesResponse :: response where
  "noTitlesResponse = \<lparr>response_titles = None, response_enabled = Some True\<rparr>"

text \<open>
  The scenario's mapping as a plain object (it answers for the inherited names as well
  as for its own key), and three scripts that have run
  \<^verbatim>\<open>init\<close>: one started enabled on the scenario's page, one started disabled there and
  enabled later by the settings, and one started enabled on the watch page of video A.
  \<open>offscreen\<close> is a page scrolled so that its nodes lie below the window. A navigation,
  as the script sees it: the event, the host rendering the page \<open>p\<close>, and the firing of
  the timer the handler has set.
\<close>

definition plainTitles :: "string \<rightharpoonup> titleData" where
  "plainTitles = emptyObject(''abcEFghiJKL'' \<mapsto> codeRecord)"





definition offscreen :: "page \<Rightarrow> page" where
  "offscreen p =
     p\<lparr>getBoundingClientRect :=
         (\<lambda>n. \<lparr>rect_width = 300, rect_height = 250, rect_top = 900, rect_bottom = 1150\<rparr>)\<rparr>"


section \<open>Properties\<close>

subsection \<open>Unfolding and evaluation\<close>

lemmas extract_defs = extractVideoId_def patterns_def watchPattern_def shortLinkPattern_def
  shortsPattern_def embedPattern_def literalThenId_def capture11_def idChar_def

lemmas page_defs = setTextContent_def setAttribute_def getAttribute_def hrefOrEmpty_def
  isElementVisible_def textOf_def clean_title_def

lemmas card_defs = processVideoCard_def findVideoLink_def findTitleElement_def
  linkSelectors_def titleSelectors_def

lemmas scan_defs = scanPage_def containerSelectors_def processWatchPageTitle_def
  watchTitleSelectors_def

lemmas classifier_defs = isGothamChessVideo_def gc_isGothamChessVideo_def
  isOnGothamChessPage_def channelSelectors_def channelHref_def GOTHAMCHESS_NAMES_def
  GOTHAMCHESS_HANDLE_def GOTHAMCHESS_CHANNEL_ID_def toLowerCase_def lowerChar_def

lemmas gc_card_defs = gc_processVideoCard_def findVideoLink_def gc_findTitleElement_def
  linkSelectors_def gc_titleSelectors_def

lemmas gc_watch_defs = gc_processWatchPageTitle_def watchTitleSelectors_def

lemmas watch_defs = processWatchPageTitle_def watchTitleSelectors_def

lemmas host_defs = recycleCard_def navigateToB_def hostSetsHref_def hostSetsText_def
  hostNavigates_def

lemmas example_defs = gcStateA_def stateA_def pageA_def twoTitles_def cardPage_def

lemmas object_defs = emptyObject_def objectPrototypeNames_def


lemmas scenario_defs = scenarioState_def scenarioPage_def cardPage_def codeRecord_def

lemma scenario_link: "findVideoLink scenarioPage 10 = Some ''https://x/watch?v=abcEFghiJKL''"
  by (simp add: findVideoLink_def linkSelectors_def scenarioPage_def cardPage_def hrefOrEmpty_def)

lemma scenario_id: "extractVideoId (Some ''https://x/watch?v=abcEFghiJKL'') = Some ''abcEFghiJKL''"
  by (simp add: extract_defs)

lemma scenario_title: "findTitleElement scenarioPage 10 = Some 12"
  by (simp add: findTitleElement_def titleSelectors_def scenarioPage_def cardPage_def)

lemma scenario_visible: "isElementVisible scenarioPage 10"
  by (simp add: isElementVisible_def scenarioPage_def cardPage_def)

lemma bare_link: "findVideoLink bareChannelPage 10 = None"
  by (simp add: findVideoLink_def linkSelectors_def bareChannelPage_def)

subsection \<open>Fail-soft on absence\<close>

text \<open>
  When the card has no permalink identifier, or \<^verbatim>\<open>titlesCache[videoId]\<close> is undefined or
  falsy, or the card has no title element, or it is outside the viewport,
  \<^verbatim>\<open>processVideoCard\<close> returns normally and the whole state is the one it started from.
\<close>

lemma processVideoCard_returns_early:
  "extractVideoId (findVideoLink (dom s) container) = None \<or>
   (\<exists>vid. extractVideoId (findVideoLink (dom s) container) = Some vid \<and>
          titlesCache s vid = None) \<or>
   findTitleElement (dom s) container = None \<or>
   \<not> isElementVisible (dom s) container
   \<Longrightarrow> processVideoCard container s = (Returned, s)"
  by (auto simp: processVideoCard_def Let_def split: option.splits)

lemma processVideoCard_returns_early_examples:
  "processVideoCard 10 ((scenarioState codeRecord)\<lparr>dom := bareChannelPage\<rparr>)
     = (Returned, (scenarioState codeRecord)\<lparr>dom := bareChannelPage\<rparr>) \<and>
   processVideoCard 10 ((scenarioState codeRecord)\<lparr>titlesCache := Map.empty\<rparr>)
     = (Returned, (scenarioState codeRecord)\<lparr>titlesCache := Map.empty\<rparr>) \<and>
   processVideoCard 10 ((scenarioState codeRecord)\<lparr>dom := untitledPage\<rparr>)
     = (Returned, (scenarioState codeRecord)\<lparr>dom := untitledPage\<rparr>) \<and>
   processVideoCard 10 ((scenarioState codeRecord)\<lparr>dom := offscreen scenarioPage\<rparr>)
     = (Returned, (scenarioState codeRecord)\<lparr>dom := offscreen scenarioPage\<rparr>)"
proof -
  let ?s1 = "(scenarioState codeRecord)\<lparr>dom := bareChannelPage\<rparr>"
  let ?s2 = "(scenarioState codeRecord)\<lparr>titlesCache := Map.empty\<rparr>"
  let ?s3 = "(scenarioState codeRecord)\<lparr>dom := untitledPage\<rparr>"
  let ?s4 = "(scenarioState codeRecord)\<lparr>dom := offscreen scenarioPage\<rparr>"
  have a: "extractVideoId (findVideoLink (dom ?s1) 10) = None"
    by (simp add: bare_link extractVideoId_def)
  have b: "\<exists>vid. extractVideoId (findVideoLink (dom ?s2) 10) = Some vid \<and>
                 titlesCache ?s2 vid = None"
    by (simp add: scenarioState_def scenario_link scenario_id)
  have c: "findTitleElement (dom ?s3) 10 = None"
    by (simp add: findTitleElement_def titleSelectors_def untitledPage_def scenarioPage_def
        cardPage_def)
  have d: "\<not> isElementVisible (dom ?s4) 10"
    by (simp add: isElementVisible_def offscreen_def scenarioPage_def cardPage_def)
  show ?thesis
    using processVideoCard_returns_early [of ?s1 10] processVideoCard_returns_early [of ?s2 10]
      processVideoCard_returns_early [of ?s3 10] processVideoCard_returns_early [of ?s4 10]
      a b c d
    by blast
qed

text \<open>
  C6 fails on the script for the identifier \<^verbatim>\<open>constructor\<close>. The script is loaded, its
  mapping is \<^verbatim>\<open>{}\<close>, which has no key at all; the card links to
  \<^verbatim>\<open>watch?v=constructor\<close>, has a title and is in the viewport. The read
  \<^verbatim>\<open>titlesCache[videoId]\<close> gives the inherited \<^verbatim>\<open>Object\<close> function, which is truthy, so
  the test \<^verbatim>\<open>!titleData\<close> does not return: the title is emptied, both attributes, the
  memory and the counter are written, and the \<^verbatim>\<open>console.log\<close> line throws. The same
  happens in the first scan of \<^verbatim>\<open>init\<close> when the answer carries no titles, and
  \<^verbatim>\<open>init\<close> then ends before it installs the observer and the listeners.
\<close>

theorem processVideoCard_inherited_key:
  "titlesCache (script (loaded constructorPage)) = emptyObject \<and>
   extractVideoId (findVideoLink (dom (script (loaded constructorPage))) 10) = Some ''constructor'' \<and>
   textContent (elements (dom (script (loaded constructorPage))) 12) = ''A TITLE'' \<and>
   fst (processVideoCard 10 (script (loaded constructorPage))) = Threw TypeError \<and>
   textContent (elements (dom (snd (processVideoCard 10 (script (loaded constructorPage))))) 12) = [] \<and>
   getAttribute (dom (snd (processVideoCard 10 (script (loaded constructorPage))))) 12
     ''data-honestlevy-replaced'' = Some ''true'' \<and>
   getAttribute (dom (snd (processVideoCard 10 (script (loaded constructorPage))))) 12
     ''data-honestlevy-original'' = Some ''A TITLE'' \<and>
   processedVideoIds (snd (processVideoCard 10 (script (loaded constructorPage)))) 10
     = Some ''constructor'' \<and>
   replacedThisSession (snd (processVideoCard 10 (script (loaded constructorPage)))) = 1 \<and>
   titlesCache (script (init (Some noTitlesResponse) (loaded constructorPage))) = emptyObject \<and>
   textContent (elements (dom (script (init (Some noTitlesResponse) (loaded constructorPage)))) 12)
     = [] \<and>
   replacedThisSession (script (init (Some noTitlesResponse) (loaded constructorPage))) = 1 \<and>
   \<not> listening (init (Some noTitlesResponse) (loaded constructorPage))"
proof -
  have card: "extractVideoId (findVideoLink (dom (script (loaded constructorPage))) 10)
        = Some ''constructor'' \<and>
      textContent (elements (dom (script (loaded constructorPage))) 12) = ''A TITLE'' \<and>
      fst (processVideoCard 10 (script (loaded constructorPage))) = Threw TypeError \<and>
      textContent (elements (dom (snd (processVideoCard 10 (script (loaded constructorPage))))) 12)
        = [] \<and>
      getAttribute (dom (snd (processVideoCard 10 (script (loaded constructorPage))))) 12
        ''data-honestlevy-replaced'' = Some ''true'' \<and>
      getAttribute (dom (snd (processVideoCard 10 (script (loaded constructorPage))))) 12
        ''data-honestlevy-original'' = Some ''A TITLE'' \<and>
      processedVideoIds (snd (processVideoCard 10 (script (loaded constructorPage)))) 10
        = Some ''constructor'' \<and>
      replacedThisSession (snd (processVideoCard 10 (script (loaded constructorPage)))) = 1"
    by (simp add: loaded_def constructorPage_def cardPage_def card_defs page_defs extract_defs
        object_defs Let_def)
  have start: "titlesCache (script (init (Some noTitlesResponse) (loaded constructorPage)))
        = emptyObject \<and>
      textContent (elements (dom (script (init (Some noTitlesResponse) (loaded constructorPage)))) 12)
        = [] \<and>
      replacedThisSession (script (init (Some noTitlesResponse) (loaded constructorPage))) = 1 \<and>
      \<not> listening (init (Some noTitlesResponse) (loaded constructorPage))"
    by (simp add: init_def received_def noTitlesResponse_def callScanPage_def scan_defs
        loaded_def constructorPage_def cardPage_def card_defs page_defs extract_defs
        object_defs Let_def)
  have "titlesCache (script (loaded constructorPage)) = emptyObject"
    by (simp add: loaded_def)
  then show ?thesis
    using card start by simp
qed

subsection \<open>Disabled-state gating\<close>

text \<open>
  C7. While \<^verbatim>\<open>enabled\<close> is false, \<^verbatim>\<open>scanPage\<close> returns at once and leaves the whole
  state as it was, whatever the page and the title mapping are; the callback of the
  mutation observer, reading the same flag, arms no timer.
\<close>

theorem scanPage_disabled:
  "\<not> enabled (script rt) \<Longrightarrow>
     scanPage (script rt) = (Returned, script rt) \<and> observerCallback mutations rt = rt"
  by (simp add: scanPage_def observerCallback_def)

theorem scanPage_disabled_witness:
  "scanPage ((scenarioState codeRecord)\<lparr>enabled := False\<rparr>)
     = (Returned, (scenarioState codeRecord)\<lparr>enabled := False\<rparr>) \<and>
   textContent (elements (dom (snd (scanPage ((scenarioState codeRecord)\<lparr>enabled := False\<rparr>)))) 12)
     = ''YOU WON'T BELIEVE THIS BLUNDER!!!''"
proof -
  let ?rt = "(loaded scenarioPage)\<lparr>script := (scenarioState codeRecord)\<lparr>enabled := False\<rparr>\<rparr>"
  have off: "\<not> enabled (script ?rt)"
    by simp
  have "scanPage (script ?rt) = (Returned, script ?rt)"
    using scanPage_disabled [OF off] by blast
  then have noop: "scanPage ((scenarioState codeRecord)\<lparr>enabled := False\<rparr>)
                     = (Returned, (scenarioState codeRecord)\<lparr>enabled := False\<rparr>)"
    by simp
  have title: "textContent (elements (dom (scenarioState codeRecord)) 12)
                = ''YOU WON'T BELIEVE THIS BLUNDER!!!''"
    by (simp add: scenarioState_def scenarioPage_def cardPage_def)
  show ?thesis
    by (simp add: noop title)
qed

subsection \<open>What the scripts' writes leave alone\<close>

text \<open>
  Writing the text or an attribute of a node changes neither the answers to selectors
  nor any \<^verbatim>\<open>href\<close>, so the permalink of a card is the same after a substitution.
\<close>

lemma hrefOrEmpty_setTextContent [simp]: "hrefOrEmpty (setTextContent n t p) m = hrefOrEmpty p m"
  by (simp add: hrefOrEmpty_def setTextContent_def)

lemma hrefOrEmpty_setAttribute [simp]: "hrefOrEmpty (setAttribute n a v p) m = hrefOrEmpty p m"
  by (simp add: hrefOrEmpty_def setAttribute_def)

lemma querySelector_setTextContent [simp]: "querySelector (setTextContent n t p) = querySelector p"
  by (simp add: setTextContent_def)

lemma querySelector_setAttribute [simp]: "querySelector (setAttribute n a v p) = querySelector p"
  by (simp add: setAttribute_def)

lemma firstHref_setTextContent [simp]:
  "firstHref (setTextContent n t p) c sels = firstHref p c sels"
  by (induction sels) (simp_all split: option.splits)

lemma firstHref_setAttribute [simp]:
  "firstHref (setAttribute n a v p) c sels = firstHref p c sels"
  by (induction sels) (simp_all split: option.splits)

lemma findVideoLink_setTextContent [simp]:
  "findVideoLink (setTextContent n t p) c = findVideoLink p c"
  by (simp add: findVideoLink_def)

lemma findVideoLink_setAttribute [simp]:
  "findVideoLink (setAttribute n a v p) c = findVideoLink p c"
  by (simp add: findVideoLink_def)

subsection \<open>Idempotence of the substitution\<close>

lemma processVideoCard_cases:
  "processVideoCard c s = (Returned, s) \<or>
   (\<exists>vid. extractVideoId (findVideoLink (dom s) c) = Some vid \<and>
          processedVideoIds (snd (processVideoCard c s)) c = Some vid \<and>
          findVideoLink (dom (snd (processVideoCard c s))) c = findVideoLink (dom s) c \<and>
          replacedThisSession (snd (processVideoCard c s)) = replacedThisSession s + 1)"
  by (auto simp: processVideoCard_def Let_def split: option.splits)

lemma processVideoCard_remembered:
  "extractVideoId (findVideoLink (dom s) c) = Some vid \<Longrightarrow> processedVideoIds s c = Some vid
   \<Longrightarrow> processVideoCard c s = (Returned, s)"
  by (simp add: processVideoCard_def)

lemma processVideoCard_twice:
  "processVideoCard c (snd (processVideoCard c s)) = (Returned, snd (processVideoCard c s))"
  using processVideoCard_cases [of c s]
proof
  assume "processVideoCard c s = (Returned, s)"
  then show ?thesis by simp
next
  assume "\<exists>vid. extractVideoId (findVideoLink (dom s) c) = Some vid \<and>
          processedVideoIds (snd (processVideoCard c s)) c = Some vid \<and>
          findVideoLink (dom (snd (processVideoCard c s))) c = findVideoLink (dom s) c \<and>
          replacedThisSession (snd (processVideoCard c s)) = replacedThisSession s + 1"
  then obtain vid where
    "extractVideoId (findVideoLink (dom (snd (processVideoCard c s))) c) = Some vid"
    "processedVideoIds (snd (processVideoCard c s)) c = Some vid"
    by auto
  then show ?thesis by (rule processVideoCard_remembered)
qed

lemma processVideoCard_counter:
  "replacedThisSession (snd (processVideoCard c s)) \<le> replacedThisSession s + 1"
  using processVideoCard_cases [of c s] by auto

lemma processVideoCard_already_clean:
  "findTitleElement (dom s) c = Some e \<Longrightarrow>
   extractVideoId (findVideoLink (dom s) c) = Some vid \<Longrightarrow>
   titlesCache s vid = Some td \<Longrightarrow>
   clean_title td = Some (textContent (elements (dom s) e)) \<Longrightarrow>
   processVideoCard c s = (Returned, s)"
  by (simp add: processVideoCard_def Let_def)

lemma gc_processVideoCard_cases:
  "gc_processVideoCard c g = g \<or>
   (c \<in> processedElements (gc_processVideoCard c g) \<and>
    gc_replacedThisSession (gc_processVideoCard c g) = gc_replacedThisSession g + 1)"
  by (auto simp: gc_processVideoCard_def Let_def split: option.splits)

lemma gc_processVideoCard_twice:
  "gc_processVideoCard c (gc_processVideoCard c g) = gc_processVideoCard c g"
  using gc_processVideoCard_cases [of c g]
proof
  assume "gc_processVideoCard c g = g"
  then show ?thesis by simp
next
  assume "c \<in> processedElements (gc_processVideoCard c g) \<and>
    gc_replacedThisSession (gc_processVideoCard c g) = gc_replacedThisSession g + 1"
  then have "c \<in> processedElements (gc_processVideoCard c g)" by simp
  then show ?thesis by (subst gc_processVideoCard_def) simp
qed

lemma gc_processVideoCard_already_clean:
  "gc_findTitleElement (gc_dom g) c = Some e \<Longrightarrow>
   extractVideoId (findVideoLink (gc_dom g) c) = Some vid \<Longrightarrow>
   gc_titlesCache g vid = Some td \<Longrightarrow>
   clean_title td = Some (textContent (elements (gc_dom g) e)) \<Longrightarrow>
   gc_processVideoCard c g = g"
  by (simp add: gc_processVideoCard_def Let_def)

lemma scenario_first:
  "replacedThisSession (snd (processVideoCard 10 (scenarioState codeRecord))) = 1 \<and>
   textContent (elements (dom (snd (processVideoCard 10 (scenarioState codeRecord)))) 12)
     = ''Magnus Resigns After 3 Moves''"
  by (simp add: card_defs page_defs extract_defs scenario_defs Let_def)

lemma gc_first:
  "gc_replacedThisSession (gc_processVideoCard 10 gcStateA) = 1 \<and>
   textContent (elements (gc_dom (gc_processVideoCard 10 gcStateA)) 12) = ''Game A''"
  by (simp add: gc_card_defs classifier_defs page_defs extract_defs gcStateA_def pageA_def twoTitles_def cardPage_def Let_def)

lemma scenario_first_title: "findTitleElement (dom (snd (processVideoCard 10 (scenarioState codeRecord)))) 10 = Some 12"
  by (simp add: card_defs page_defs extract_defs scenario_defs Let_def)

lemma scenario_first_link: "findVideoLink (dom (snd (processVideoCard 10 (scenarioState codeRecord)))) 10 = Some ''https://x/watch?v=abcEFghiJKL''"
  by (simp add: card_defs page_defs extract_defs scenario_defs Let_def)

lemma scenario_first_cache: "titlesCache (snd (processVideoCard 10 (scenarioState codeRecord))) ''abcEFghiJKL'' = Some codeRecord"
  by (simp add: card_defs page_defs extract_defs scenario_defs Let_def)

text \<open>
  C1. For either script, a second call of \<^verbatim>\<open>processVideoCard\<close> on a card, right after a
  first one and with nothing changed in between, returns normally and leaves the whole
  state (the page included) as the first call left it; the two calls together add at most
  1 to \<^verbatim>\<open>replacedThisSession\<close>; and a card whose title text already is the clean title
  of its video is not written to at all, whatever \<^verbatim>\<open>processedVideoIds\<close> or
  \<^verbatim>\<open>processedElements\<close> holds.
\<close>

theorem processVideoCard_idempotent:
  "processVideoCard c (snd (processVideoCard c s)) = (Returned, snd (processVideoCard c s)) \<and>
   replacedThisSession (snd (processVideoCard c (snd (processVideoCard c s))))
     \<le> replacedThisSession s + 1 \<and>
   (findTitleElement (dom s) c = Some e \<and>
    extractVideoId (findVideoLink (dom s) c) = Some vid \<and>
    titlesCache s vid = Some td \<and>
    clean_title td = Some (textContent (elements (dom s) e))
    \<longrightarrow> processVideoCard c s = (Returned, s)) \<and>
   gc_processVideoCard c (gc_processVideoCard c g) = gc_processVideoCard c g \<and>
   gc_replacedThisSession (gc_processVideoCard c (gc_processVideoCard c g))
     \<le> gc_replacedThisSession g + 1 \<and>
   (gc_findTitleElement (gc_dom g) c = Some e' \<and>
    extractVideoId (findVideoLink (gc_dom g) c) = Some vid' \<and>
    gc_titlesCache g vid' = Some td' \<and>
    clean_title td' = Some (textContent (elements (gc_dom g) e'))
    \<longrightarrow> gc_processVideoCard c g = g)"
proof -
  have "gc_replacedThisSession (gc_processVideoCard c g) \<le> gc_replacedThisSession g + 1"
    using gc_processVideoCard_cases [of c g] by auto
  then show ?thesis
    using processVideoCard_twice [of c s] processVideoCard_counter [of c s]
      gc_processVideoCard_twice [of c g]
      processVideoCard_already_clean [of s c e vid td]
      gc_processVideoCard_already_clean [of g c e' vid' td']
    by simp
qed


theorem processVideoCard_idempotent_witness:
  "replacedThisSession
     (snd (processVideoCard 10 (snd (processVideoCard 10 (scenarioState codeRecord))))) = 1 \<and>
   textContent (elements (dom
     (snd (processVideoCard 10 (snd (processVideoCard 10 (scenarioState codeRecord)))))) 12)
     = ''Magnus Resigns After 3 Moves'' \<and>
   processVideoCard 10
     ((snd (processVideoCard 10 (scenarioState codeRecord)))\<lparr>processedVideoIds := Map.empty\<rparr>)
     = (Returned,
        (snd (processVideoCard 10 (scenarioState codeRecord)))\<lparr>processedVideoIds := Map.empty\<rparr>) \<and>
   gc_replacedThisSession (gc_processVideoCard 10 (gc_processVideoCard 10 gcStateA)) = 1 \<and>
   textContent (elements (gc_dom (gc_processVideoCard 10 (gc_processVideoCard 10 gcStateA))) 12)
     = ''Game A''"
proof -
  let ?s1 = "snd (processVideoCard 10 (scenarioState codeRecord))"
  note idem = processVideoCard_idempotent [of 10 "scenarioState codeRecord" _ _ _ gcStateA]
  note clean = processVideoCard_idempotent [of 10 "?s1\<lparr>processedVideoIds := Map.empty\<rparr>"
      12 "''abcEFghiJKL''" codeRecord]
  have twice: "snd (processVideoCard 10 ?s1) = ?s1"
    using idem by simp
  have gc_twice: "gc_processVideoCard 10 (gc_processVideoCard 10 gcStateA)
          = gc_processVideoCard 10 gcStateA"
    using idem by blast
  have "clean_title codeRecord = Some (textContent (elements (dom ?s1) 12))"
    using scenario_first by (simp add: clean_title_def codeRecord_def)
  then have again: "processVideoCard 10 (?s1\<lparr>processedVideoIds := Map.empty\<rparr>)
          = (Returned, ?s1\<lparr>processedVideoIds := Map.empty\<rparr>)"
    using clean scenario_first_title scenario_first_link scenario_first_cache scenario_id
    by simp
  show ?thesis
    using scenario_first gc_first by (simp add: twice gc_twice again)
qed

subsection \<open>The Identifier Extractor\<close>

text \<open>
  The patterns of the model against the shapes in the specification's words, and
  \<^verbatim>\<open>match\<close> as the search for the leftmost position.
\<close>

lemma startsWith_iff: "startsWith s lit \<longleftrightarrow> (\<exists>rest. s = lit @ rest)"
  by (induction s lit rule: startsWith.induct) auto

lemma capture11_iff:
  "capture11 s = Some tok \<longleftrightarrow> (\<exists>rest. s = tok @ rest \<and> length tok = 11 \<and> list_all idChar tok)"
proof
  assume "capture11 s = Some tok"
  then have "tok = take 11 s" "length tok = 11" "list_all idChar tok"
    by (auto simp: capture11_def Let_def split: if_splits)
  then have "s = tok @ drop 11 s" by simp
  with \<open>length tok = 11\<close> \<open>list_all idChar tok\<close> show "\<exists>rest. s = tok @ rest \<and> length tok = 11 \<and> list_all idChar tok"
    by blast
next
  assume "\<exists>rest. s = tok @ rest \<and> length tok = 11 \<and> list_all idChar tok"
  then show "capture11 s = Some tok"
    by (auto simp: capture11_def Let_def)
qed

lemma literalThenId_iff:
  "literalThenId lit s = Some tok \<longleftrightarrow>
     (\<exists>rest. s = lit @ tok @ rest \<and> length tok = 11 \<and> list_all idChar tok)"
  by (auto simp: literalThenId_def startsWith_iff capture11_iff)

lemma shapeAt_iff:
  "shapeAt lit url i tok \<longleftrightarrow> i \<le> length url \<and> literalThenId lit (drop i url) = Some tok"
proof
  assume "shapeAt lit url i tok"
  then obtain pre rest where "url = pre @ lit @ tok @ rest" "length pre = i"
    "length tok = 11" "list_all idChar tok"
    by (auto simp: shapeAt_def)
  then show "i \<le> length url \<and> literalThenId lit (drop i url) = Some tok"
    by (auto simp: literalThenId_iff)
next
  assume a: "i \<le> length url \<and> literalThenId lit (drop i url) = Some tok"
  then obtain rest where "drop i url = lit @ tok @ rest" "length tok = 11" "list_all idChar tok"
    by (auto simp: literalThenId_iff)
  moreover have "url = take i url @ drop i url" by simp
  moreover have "length (take i url) = i" using a by simp
  ultimately show "shapeAt lit url i tok"
    unfolding shapeAt_def by metis
qed

lemma watchPattern_iff:
  "watchPattern s = Some tok \<longleftrightarrow>
     literalThenId ''?v='' s = Some tok \<or> literalThenId ''&v='' s = Some tok"
  by (cases s) (auto simp: watchPattern_def literalThenId_def split: if_splits)

lemma watchShapeAt_iff:
  "watchShapeAt url i tok \<longleftrightarrow> i \<le> length url \<and> watchPattern (drop i url) = Some tok"
  by (auto simp: watchShapeAt_def shapeAt_iff watchPattern_iff)

lemma match_None_iff: "match pat s = None \<longleftrightarrow> (\<forall>i\<le>length s. pat (drop i s) = None)"
proof (induction s)
  case Nil
  then show ?case by simp
next
  case (Cons c cs)
  have "(\<forall>i\<le>length (c # cs). pat (drop i (c # cs)) = None) \<longleftrightarrow>
        pat (c # cs) = None \<and> (\<forall>i\<le>length cs. pat (drop i cs) = None)"
  proof
    assume h: "\<forall>i\<le>length (c # cs). pat (drop i (c # cs)) = None"
    have "pat (drop 0 (c # cs)) = None" using h by blast
    moreover have "\<forall>i\<le>length cs. pat (drop i cs) = None"
    proof (intro allI impI)
      fix i assume "i \<le> length cs"
      then have "pat (drop (Suc i) (c # cs)) = None" using h by auto
      then show "pat (drop i cs) = None" by simp
    qed
    ultimately show "pat (c # cs) = None \<and> (\<forall>i\<le>length cs. pat (drop i cs) = None)" by simp
  next
    assume h: "pat (c # cs) = None \<and> (\<forall>i\<le>length cs. pat (drop i cs) = None)"
    show "\<forall>i\<le>length (c # cs). pat (drop i (c # cs)) = None"
    proof (intro allI impI)
      fix i assume "i \<le> length (c # cs)"
      then show "pat (drop i (c # cs)) = None" using h by (cases i) auto
    qed
  qed
  with Cons show ?case by (simp split: option.splits)
qed

lemma match_leftmost:
  "i \<le> length s \<Longrightarrow> pat (drop i s) = Some tok \<Longrightarrow> \<forall>j<i. pat (drop j s) = None
   \<Longrightarrow> match pat s = Some tok"
proof (induction s arbitrary: i)
  case Nil
  then show ?case by simp
next
  case (Cons c cs)
  show ?case
  proof (cases i)
    case 0
    with Cons.prems show ?thesis by simp
  next
    case (Suc k)
    with Cons.prems have "pat (drop 0 (c # cs)) = None" by blast
    then have here: "pat (c # cs) = None" by simp
    have "k \<le> length cs" "pat (drop k cs) = Some tok"
      using Cons.prems Suc by auto
    moreover have "\<forall>j<k. pat (drop j cs) = None"
    proof (intro allI impI)
      fix j assume "j < k"
      then have "pat (drop (Suc j) (c # cs)) = None" using Cons.prems Suc by auto
      then show "pat (drop j cs) = None" by simp
    qed
    ultimately have "match pat cs = Some tok" by (rule Cons.IH)
    with here show ?thesis by simp
  qed
qed

lemma leftmost_watch: "leftmost watchShapeAt url tok \<Longrightarrow> match watchPattern url = Some tok"
  unfolding leftmost_def watchShapeAt_iff
  by (metis match_leftmost option.exhaust order_less_imp_le order_less_le_trans)

lemma absent_watch: "absent watchShapeAt url \<Longrightarrow> match watchPattern url = None"
  unfolding absent_def watchShapeAt_iff match_None_iff
  by (metis option.exhaust)

lemma leftmost_lit: "leftmost (shapeAt lit) url tok \<Longrightarrow> match (literalThenId lit) url = Some tok"
  unfolding leftmost_def shapeAt_iff
  by (metis match_leftmost option.exhaust order_less_imp_le order_less_le_trans)

lemma absent_lit: "absent (shapeAt lit) url \<Longrightarrow> match (literalThenId lit) url = None"
  unfolding absent_def shapeAt_iff match_None_iff
  by (metis option.exhaust)


lemma match_Some_leftmost:
  "match pat s = Some tok \<Longrightarrow>
     \<exists>i\<le>length s. pat (drop i s) = Some tok \<and> (\<forall>j<i. pat (drop j s) = None)"
proof (induction s)
  case Nil
  then show ?case by simp
next
  case (Cons c cs)
  show ?case
  proof (cases "pat (c # cs)")
    case (Some t)
    with Cons.prems have "pat (drop 0 (c # cs)) = Some tok" by simp
    then show ?thesis by blast
  next
    case None
    with Cons.prems have "match pat cs = Some tok" by simp
    then obtain i where i: "i \<le> length cs" "pat (drop i cs) = Some tok"
      "\<forall>j<i. pat (drop j cs) = None"
      using Cons.IH by blast
    have "\<forall>j<Suc i. pat (drop j (c # cs)) = None"
    proof (intro allI impI)
      fix j assume "j < Suc i"
      then show "pat (drop j (c # cs)) = None"
        using None i(3) by (cases j) auto
    qed
    moreover have "Suc i \<le> length (c # cs)" "pat (drop (Suc i) (c # cs)) = Some tok"
      using i by auto
    ultimately show ?thesis by blast
  qed
qed

lemma leftmost_watch_iff: "leftmost watchShapeAt url tok \<longleftrightarrow> match watchPattern url = Some tok"
proof
  assume "leftmost watchShapeAt url tok"
  then show "match watchPattern url = Some tok" by (rule leftmost_watch)
next
  assume "match watchPattern url = Some tok"
  then obtain i where i: "i \<le> length url" "watchPattern (drop i url) = Some tok"
    "\<forall>j<i. watchPattern (drop j url) = None"
    using match_Some_leftmost by blast
  then have "watchShapeAt url i tok \<and> (\<forall>j<i. \<forall>t. \<not> watchShapeAt url j t)"
    by (simp add: watchShapeAt_iff)
  then show "leftmost watchShapeAt url tok"
    unfolding leftmost_def by blast
qed

lemma absent_watch_iff: "absent watchShapeAt url \<longleftrightarrow> match watchPattern url = None"
proof
  assume "absent watchShapeAt url"
  then show "match watchPattern url = None" by (rule absent_watch)
next
  assume "match watchPattern url = None"
  then show "absent watchShapeAt url"
    by (simp add: absent_def watchShapeAt_iff match_None_iff)
qed

lemma leftmost_lit_iff:
  "leftmost (shapeAt lit) url tok \<longleftrightarrow> match (literalThenId lit) url = Some tok"
proof
  assume "leftmost (shapeAt lit) url tok"
  then show "match (literalThenId lit) url = Some tok" by (rule leftmost_lit)
next
  assume "match (literalThenId lit) url = Some tok"
  then obtain i where i: "i \<le> length url" "literalThenId lit (drop i url) = Some tok"
    "\<forall>j<i. literalThenId lit (drop j url) = None"
    using match_Some_leftmost by blast
  then have "shapeAt lit url i tok \<and> (\<forall>j<i. \<forall>t. \<not> shapeAt lit url j t)"
    by (simp add: shapeAt_iff)
  then show "leftmost (shapeAt lit) url tok"
    unfolding leftmost_def by blast
qed

lemma absent_lit_iff: "absent (shapeAt lit) url \<longleftrightarrow> match (literalThenId lit) url = None"
proof
  assume "absent (shapeAt lit) url"
  then show "match (literalThenId lit) url = None" by (rule absent_lit)
next
  assume "match (literalThenId lit) url = None"
  then show "absent (shapeAt lit) url"
    by (simp add: absent_def shapeAt_iff match_None_iff)
qed

lemma extractVideoId_unfold:
  "extractVideoId (Some url) =
     (if url = [] then None
      else case match watchPattern url of
             Some tok \<Rightarrow> Some tok
           | None \<Rightarrow>
              (case match (literalThenId ''youtu.be/'') url of
                 Some tok \<Rightarrow> Some tok
               | None \<Rightarrow>
                  (case match (literalThenId ''/shorts/'') url of
                     Some tok \<Rightarrow> Some tok
                   | None \<Rightarrow> match (literalThenId ''/embed/'') url)))"
proof -
  have "shortLinkPattern = literalThenId ''youtu.be/''" "shortsPattern = literalThenId ''/shorts/''"
    "embedPattern = literalThenId ''/embed/''"
    by (auto simp: shortLinkPattern_def shortsPattern_def embedPattern_def)
  then show ?thesis
    by (simp add: extractVideoId_def patterns_def split: option.splits)
qed


text \<open>
  C4, as the script has it. \<^verbatim>\<open>extractVideoId\<close> returns none for an absent and for an
  empty input. For a URL that contains the query parameter \<^verbatim>\<open>v=\<close> followed by at least
  11 identifier characters, it returns the first 11 identifier characters after the
  leftmost such parameter. The four patterns are tried in their order: the token of the
  leftmost occurrence of the first shape that occurs at all is returned, and a URL in
  which none of the four shapes occurs gives none.
\<close>

theorem extractVideoId_leftmost:
  "extractVideoId None = None \<and>
   extractVideoId (Some []) = None \<and>
   (leftmost watchShapeAt url tok \<longrightarrow> extractVideoId (Some url) = Some tok) \<and>
   (absent watchShapeAt url \<and> leftmost (shapeAt ''youtu.be/'') url tok
      \<longrightarrow> extractVideoId (Some url) = Some tok) \<and>
   (absent watchShapeAt url \<and> absent (shapeAt ''youtu.be/'') url \<and>
    leftmost (shapeAt ''/shorts/'') url tok
      \<longrightarrow> extractVideoId (Some url) = Some tok) \<and>
   (absent watchShapeAt url \<and> absent (shapeAt ''youtu.be/'') url \<and>
    absent (shapeAt ''/shorts/'') url \<and> leftmost (shapeAt ''/embed/'') url tok
      \<longrightarrow> extractVideoId (Some url) = Some tok) \<and>
   (absent watchShapeAt url \<and> absent (shapeAt ''youtu.be/'') url \<and>
    absent (shapeAt ''/shorts/'') url \<and> absent (shapeAt ''/embed/'') url
      \<longrightarrow> extractVideoId (Some url) = None)"
proof -
  have empty: "match pat [] = Some tok \<Longrightarrow> pat [] = Some tok" for pat
    by simp
  have no_watch: "watchPattern [] = None"
    by (simp add: watchPattern_def)
  have no_lit: "lit \<noteq> [] \<Longrightarrow> literalThenId lit [] = None" for lit
    by (cases lit) (simp_all add: literalThenId_def)
  have e1: "match watchPattern url = Some tok \<Longrightarrow> url \<noteq> []"
    using no_watch by auto
  have e2: "lit \<noteq> [] \<Longrightarrow> match (literalThenId lit) url = Some tok \<Longrightarrow> url \<noteq> []" for lit
    using no_lit by auto
  have none: "extractVideoId None = None" "extractVideoId (Some []) = None"
    by (simp_all add: extractVideoId_def)
  show ?thesis
    unfolding leftmost_watch_iff absent_watch_iff leftmost_lit_iff absent_lit_iff
    using e1 e2 [of "''youtu.be/''"] e2 [of "''/shorts/''"] e2 [of "''/embed/''"] none
    by (auto simp: extractVideoId_unfold)
qed

theorem extractVideoId_leftmost_witness:
  "extractVideoId (Some ''https://x/watch?v=abcEFghiJKL'') = Some ''abcEFghiJKL'' \<and>
   extractVideoId (Some ''https://youtu.be/abcEFghiJKL'') = Some ''abcEFghiJKL'' \<and>
   extractVideoId (Some ''https://x/shorts/AAAAAAAAAAA?v=BBBBBBBBBBB'') = Some ''BBBBBBBBBBB'' \<and>
   extractVideoId (Some ''https://x/shorts/AAAAAAAAAAA'') = Some ''AAAAAAAAAAA'' \<and>
   extractVideoId (Some ''https://x/embed/abcEFghiJKL'') = Some ''abcEFghiJKL'' \<and>
   extractVideoId (Some ''https://x/watch?v=tooShort'') = None"
proof -
  have w: "leftmost watchShapeAt ''https://x/watch?v=abcEFghiJKL'' ''abcEFghiJKL''"
    by (simp add: leftmost_watch_iff extract_defs)
  have y: "absent watchShapeAt ''https://youtu.be/abcEFghiJKL'' \<and>
           leftmost (shapeAt ''youtu.be/'') ''https://youtu.be/abcEFghiJKL'' ''abcEFghiJKL''"
    by (simp add: absent_watch_iff leftmost_lit_iff extract_defs)
  have o: "leftmost watchShapeAt ''https://x/shorts/AAAAAAAAAAA?v=BBBBBBBBBBB'' ''BBBBBBBBBBB''"
    by (simp add: leftmost_watch_iff extract_defs)
  have s: "absent watchShapeAt ''https://x/shorts/AAAAAAAAAAA'' \<and>
           absent (shapeAt ''youtu.be/'') ''https://x/shorts/AAAAAAAAAAA'' \<and>
           leftmost (shapeAt ''/shorts/'') ''https://x/shorts/AAAAAAAAAAA'' ''AAAAAAAAAAA''"
    by (simp add: absent_watch_iff absent_lit_iff leftmost_lit_iff extract_defs)
  have e: "absent watchShapeAt ''https://x/embed/abcEFghiJKL'' \<and>
           absent (shapeAt ''youtu.be/'') ''https://x/embed/abcEFghiJKL'' \<and>
           absent (shapeAt ''/shorts/'') ''https://x/embed/abcEFghiJKL'' \<and>
           leftmost (shapeAt ''/embed/'') ''https://x/embed/abcEFghiJKL'' ''abcEFghiJKL''"
    by (simp add: absent_watch_iff absent_lit_iff leftmost_lit_iff extract_defs)
  have n: "absent watchShapeAt ''https://x/watch?v=tooShort'' \<and>
           absent (shapeAt ''youtu.be/'') ''https://x/watch?v=tooShort'' \<and>
           absent (shapeAt ''/shorts/'') ''https://x/watch?v=tooShort'' \<and>
           absent (shapeAt ''/embed/'') ''https://x/watch?v=tooShort''"
    by (simp add: absent_watch_iff absent_lit_iff extract_defs)
  note c3 = conjunct2 [THEN conjunct2, THEN conjunct1, THEN mp]
  note c4 = conjunct2 [THEN conjunct2, THEN conjunct2, THEN conjunct1, THEN mp]
  note c5 = conjunct2 [THEN conjunct2, THEN conjunct2, THEN conjunct2, THEN conjunct1, THEN mp]
  note c6 = conjunct2 [THEN conjunct2, THEN conjunct2, THEN conjunct2, THEN conjunct2,
      THEN conjunct1, THEN mp]
  note c7 = conjunct2 [THEN conjunct2, THEN conjunct2, THEN conjunct2, THEN conjunct2,
      THEN conjunct2, THEN mp]
  have r1: "extractVideoId (Some ''https://x/watch?v=abcEFghiJKL'') = Some ''abcEFghiJKL''"
    by (rule c3 [OF extractVideoId_leftmost w])
  have r2: "extractVideoId (Some ''https://youtu.be/abcEFghiJKL'') = Some ''abcEFghiJKL''"
    by (rule c4 [OF extractVideoId_leftmost y])
  have r3: "extractVideoId (Some ''https://x/shorts/AAAAAAAAAAA?v=BBBBBBBBBBB'')
              = Some ''BBBBBBBBBBB''"
    by (rule c3 [OF extractVideoId_leftmost o])
  have r4: "extractVideoId (Some ''https://x/shorts/AAAAAAAAAAA'') = Some ''AAAAAAAAAAA''"
    by (rule c5 [OF extractVideoId_leftmost s])
  have r5: "extractVideoId (Some ''https://x/embed/abcEFghiJKL'') = Some ''abcEFghiJKL''"
    by (rule c6 [OF extractVideoId_leftmost e])
  have r6: "extractVideoId (Some ''https://x/watch?v=tooShort'') = None"
    by (rule c7 [OF extractVideoId_leftmost n])
  show ?thesis
    by (intro conjI r1 r2 r3 r4 r5 r6)
qed

text \<open>
  The claim as it was stated fails where an earlier parameter \<^verbatim>\<open>v=\<close> has more than
  11 identifier characters: the URL below ends in \<^verbatim>\<open>&v=BBBBBBBBBBB\<close>, a parameter
  followed by exactly 11 identifier characters, and the result is the first 11
  characters of the earlier parameter.
\<close>

theorem extractVideoId_exactly_counterexample:
  "shapeAt ''&v='' ''https://x/watch?v=AAAAAAAAAAAA&v=BBBBBBBBBBB'' 30 ''BBBBBBBBBBB'' \<and>
   length ''https://x/watch?v=AAAAAAAAAAAA&v=BBBBBBBBBBB'' = 30 + 3 + 11 \<and>
   extractVideoId (Some ''https://x/watch?v=AAAAAAAAAAAA&v=BBBBBBBBBBB'') = Some ''AAAAAAAAAAA''"
  by (simp add: shapeAt_iff extract_defs)

subsection \<open>The Channel Classifier and the page's address\<close>

text \<open>
  C9, as the scripts have it. In the HonestLevy script, when the address of the page
  contains one of the channel's three URL forms, \<^verbatim>\<open>isGothamChessVideo\<close> is true of
  every container, whatever the nodes of the page hold and whatever the selectors find.
  (The GothamClean script's classifier has no such test: it reads the container only.)
\<close>

theorem isGothamChessVideo_on_channel_page:
  "includesStr (location_href p) ''/@GothamChess'' \<or>
   includesStr (location_href p) ''/c/GothamChess'' \<or>
   includesStr (location_href p) ''/channel/UCQHX6ViZmPsWiYSFAyS0a3Q''
   \<Longrightarrow> isGothamChessVideo
         (p\<lparr>elements := els, querySelector := qs, querySelectorAll := qsa\<rparr>) container"
  by (simp add: isGothamChessVideo_def isOnGothamChessPage_def)

theorem isGothamChessVideo_on_channel_page_witness:
  "isGothamChessVideo bareChannelPage 10 \<and>
   isGothamChessVideo
     (cardPage ''https://www.youtube.com/channel/UCQHX6ViZmPsWiYSFAyS0a3Q'' [] [] []) 10"
proof -
  have a: "includesStr (location_href bareChannelPage) ''/@GothamChess''"
    by (simp add: bareChannelPage_def)
  have b: "includesStr
             (location_href (cardPage ''https://www.youtube.com/channel/UCQHX6ViZmPsWiYSFAyS0a3Q'' [] [] []))
             ''/channel/UCQHX6ViZmPsWiYSFAyS0a3Q''"
    by (simp add: cardPage_def)
  have "isGothamChessVideo
          (bareChannelPage\<lparr>elements := elements bareChannelPage,
             querySelector := querySelector bareChannelPage,
             querySelectorAll := querySelectorAll bareChannelPage\<rparr>) 10"
    by (rule isGothamChessVideo_on_channel_page) (simp add: a)
  moreover have "isGothamChessVideo
          ((cardPage ''https://www.youtube.com/channel/UCQHX6ViZmPsWiYSFAyS0a3Q'' [] [] [])
             \<lparr>elements := elements (cardPage ''https://www.youtube.com/channel/UCQHX6ViZmPsWiYSFAyS0a3Q'' [] [] []),
              querySelector := querySelector (cardPage ''https://www.youtube.com/channel/UCQHX6ViZmPsWiYSFAyS0a3Q'' [] [] []),
              querySelectorAll := querySelectorAll (cardPage ''https://www.youtube.com/channel/UCQHX6ViZmPsWiYSFAyS0a3Q'' [] [] [])\<rparr>) 10"
    by (rule isGothamChessVideo_on_channel_page) (simp add: b)
  ultimately show ?thesis by simp
qed

text \<open>
  The GothamClean classifier on the channel's own page, for a card with no channel
  name and no link inside it.
\<close>

theorem gc_isGothamChessVideo_counterexample:
  "includesStr (location_href bareChannelPage) ''/@GothamChess'' \<and>
   \<not> gc_isGothamChessVideo bareChannelPage 10"
  by (simp add: bareChannelPage_def classifier_defs)

text \<open>
  The GothamClean classifier does not read the page's address at all.
\<close>

lemma channelLoop_address:
  "channelLoop (p\<lparr>location_href := u\<rparr>) c sels = channelLoop p c sels"
  by (induction sels) (simp_all add: channelHref_def hrefOrEmpty_def Let_def split: option.splits)

lemma linksLoop_address:
  "linksLoop (p\<lparr>location_href := u\<rparr>) links = linksLoop p links"
  by (induction links) (simp_all add: hrefOrEmpty_def Let_def)

lemma gc_isGothamChessVideo_ignores_address:
  "gc_isGothamChessVideo (p\<lparr>location_href := u\<rparr>) c = gc_isGothamChessVideo p c"
  by (simp add: gc_isGothamChessVideo_def channelLoop_address linksLoop_address)

subsection \<open>Cards the host reuses for another video\<close>

text \<open>
  The HonestLevy script on a visible card with a title element, whose video is in the
  mapping with a clean title and is not the one \<^verbatim>\<open>processedVideoIds\<close> remembers for the
  card: the call returns normally, the title then shows the clean title, and the counter
  grows by one exactly when the title text had to be written.
\<close>

lemma processVideoCard_substitutes:
  assumes "extractVideoId (findVideoLink (dom s) c) = Some vid"
    and "processedVideoIds s c \<noteq> Some vid"
    and "titlesCache s vid = Some td"
    and "clean_title td = Some t"
    and "findTitleElement (dom s) c = Some e"
    and "isElementVisible (dom s) c"
  shows "fst (processVideoCard c s) = Returned"
    and "textContent (elements (dom (snd (processVideoCard c s))) e) = t"
    and "replacedThisSession (snd (processVideoCard c s))
           = replacedThisSession s + (if textContent (elements (dom s) e) = t then 0 else 1)"
    and "textContent (elements (dom s) e) = t \<Longrightarrow> snd (processVideoCard c s) = s"
    and "textContent (elements (dom s) e) \<noteq> t \<Longrightarrow>
           getAttribute (dom (snd (processVideoCard c s))) e ''data-honestlevy-replaced'' = Some ''true'' \<and>
           getAttribute (dom (snd (processVideoCard c s))) e ''data-honestlevy-original''
             = Some (textContent (elements (dom s) e)) \<and>
           processedVideoIds (snd (processVideoCard c s)) c = Some vid \<and>
           titlesCache (snd (processVideoCard c s)) = titlesCache s \<and>
           enabled (snd (processVideoCard c s)) = enabled s"
  using assms
  by (simp_all add: processVideoCard_def Let_def page_defs)

lemma gc_processVideoCard_processed:
  "c \<in> processedElements g \<Longrightarrow> gc_processVideoCard c g = g"
  by (simp add: gc_processVideoCard_def)

lemma gcRecycled_processed: "10 \<in> processedElements gcRecycled"
  by (simp add: gcRecycled_def gc_card_defs classifier_defs page_defs extract_defs example_defs
      Let_def)

lemma gcRecycled_skipped: "gc_processVideoCard 10 gcRecycled = gcRecycled"
  using gcRecycled_processed by (rule gc_processVideoCard_processed)

text \<open>
  C2 on the GothamClean script. Card 10 shows video A and is substituted; the host then
  reuses the card for video B (new link, new title text), which is in the mapping. The
  second call of GothamClean's \<^verbatim>\<open>processVideoCard\<close> finds the card in
  \<^verbatim>\<open>processedElements\<close> and returns: the state is unchanged and the title keeps the host's
  text instead of B's clean title. With an empty \<^verbatim>\<open>processedElements\<close> the same call
  substitutes B's clean title, and so does the HonestLevy script on the same card with
  its memory of video A.
\<close>

theorem gc_processVideoCard_recycled:
  "textContent (elements (gc_dom (gc_processVideoCard 10 gcStateA)) 12) = ''Game A'' \<and>
   extractVideoId (findVideoLink (gc_dom gcRecycled) 10) = Some ''BBBBBBBBBBB'' \<and>
   gc_titlesCache gcRecycled ''BBBBBBBBBBB'' = Some [''clean_title'' \<mapsto> ''Game B''] \<and>
   gc_processVideoCard 10 gcRecycled = gcRecycled \<and>
   textContent (elements (gc_dom gcRecycled) 12) = ''SHOCKING B'' \<and>
   textContent (elements (gc_dom
     (gc_processVideoCard 10 (gcRecycled\<lparr>processedElements := {}\<rparr>))) 12) = ''Game B'' \<and>
   processedVideoIds recycled 10 = Some ''AAAAAAAAAAA'' \<and>
   textContent (elements (dom (snd (processVideoCard 10 recycled))) 12) = ''Game B''"
proof -
  have gc: "textContent (elements (gc_dom (gc_processVideoCard 10 gcStateA)) 12) = ''Game A'' \<and>
      extractVideoId (findVideoLink (gc_dom gcRecycled) 10) = Some ''BBBBBBBBBBB'' \<and>
      gc_titlesCache gcRecycled ''BBBBBBBBBBB'' = Some [''clean_title'' \<mapsto> ''Game B''] \<and>
      textContent (elements (gc_dom gcRecycled) 12) = ''SHOCKING B'' \<and>
      textContent (elements (gc_dom
        (gc_processVideoCard 10 (gcRecycled\<lparr>processedElements := {}\<rparr>))) 12) = ''Game B''"
    by (simp add: gcRecycled_def gc_card_defs classifier_defs page_defs extract_defs
        example_defs host_defs Let_def)
  have hl: "processedVideoIds recycled 10 = Some ''AAAAAAAAAAA'' \<and>
      textContent (elements (dom (snd (processVideoCard 10 recycled))) 12) = ''Game B''"
    by (simp add: recycled_def card_defs page_defs extract_defs example_defs host_defs Let_def)
  show ?thesis
    using gc hl gcRecycled_skipped by simp
qed

subsection \<open>The title of the watch page\<close>

lemma processWatchPageTitle_resubstitutes:
  assumes "extractVideoId (Some (location_href (dom s))) = Some vid"
    and "titlesCache s vid = Some td"
    and "clean_title td = Some t"
    and "documentQuerySelector (dom s) ''h1.ytd-watch-metadata yt-formatted-string'' = Some e"
    and "getAttribute (dom s) e ''data-honestlevy-video-id'' \<noteq> Some vid"
  shows "textContent (elements (dom (processWatchPageTitle s)) e) = t"
  using assms by (simp add: watch_defs page_defs Let_def)

text \<open>
  C3 on the GothamClean script. The watch title (node 14) was replaced for video A, so
  it carries \<^verbatim>\<open>data-gothamclean-replaced\<close>; the host then navigates in the page to video
  B, which is in the mapping, and gives the same node B's original title. GothamClean's
  \<^verbatim>\<open>processWatchPageTitle\<close> passes over the node because of the flag: the state is
  unchanged and the title keeps the host's text instead of B's clean title. The
  HonestLevy script, whose attribute records video A, substitutes B's clean title.
\<close>

theorem gc_processWatchPageTitle_blocked:
  "textContent (elements (gc_dom (gc_processWatchPageTitle gcStateA)) 14) = ''Game A'' \<and>
   extractVideoId (Some (location_href (gc_dom gcNavigated))) = Some ''BBBBBBBBBBB'' \<and>
   gc_titlesCache gcNavigated ''BBBBBBBBBBB'' = Some [''clean_title'' \<mapsto> ''Game B''] \<and>
   getAttribute (gc_dom gcNavigated) 14 ''data-gothamclean-replaced'' = Some ''true'' \<and>
   gc_processWatchPageTitle gcNavigated = gcNavigated \<and>
   textContent (elements (gc_dom gcNavigated) 14) = ''SHOCKING B'' \<and>
   getAttribute (dom navigated) 14 ''data-honestlevy-video-id'' = Some ''AAAAAAAAAAA'' \<and>
   textContent (elements (dom (processWatchPageTitle navigated)) 14) = ''Game B''"
proof -
  have gc: "textContent (elements (gc_dom (gc_processWatchPageTitle gcStateA)) 14) = ''Game A'' \<and>
      extractVideoId (Some (location_href (gc_dom gcNavigated))) = Some ''BBBBBBBBBBB'' \<and>
      gc_titlesCache gcNavigated ''BBBBBBBBBBB'' = Some [''clean_title'' \<mapsto> ''Game B''] \<and>
      getAttribute (gc_dom gcNavigated) 14 ''data-gothamclean-replaced'' = Some ''true'' \<and>
      textContent (elements (gc_dom gcNavigated) 14) = ''SHOCKING B''"
    by (simp add: gcNavigated_def gc_watch_defs page_defs extract_defs example_defs host_defs
        Let_def)
  have blocked: "gc_processWatchPageTitle gcNavigated = gcNavigated"
    by (simp add: gcNavigated_def gc_watch_defs page_defs extract_defs example_defs host_defs
        Let_def)
  have hl: "getAttribute (dom navigated) 14 ''data-honestlevy-video-id'' = Some ''AAAAAAAAAAA'' \<and>
      textContent (elements (dom (processWatchPageTitle navigated)) 14) = ''Game B''"
    by (simp add: navigated_def watch_defs page_defs extract_defs example_defs host_defs Let_def)
  show ?thesis
    using gc blocked hl by simp
qed

subsection \<open>The scenario of the specification\<close>

lemma dqsa_setTextContent [simp]:
  "documentQuerySelectorAll (setTextContent n t p) = documentQuerySelectorAll p"
  by (simp add: setTextContent_def)

lemma dqsa_setAttribute [simp]:
  "documentQuerySelectorAll (setAttribute n a v p) = documentQuerySelectorAll p"
  by (simp add: setAttribute_def)

lemma dqsa_processVideoCard:
  "documentQuerySelectorAll (dom (snd (processVideoCard c s))) = documentQuerySelectorAll (dom s)"
  by (simp add: processVideoCard_def Let_def split: option.splits)

lemma dqsa_forEachCard:
  "documentQuerySelectorAll (dom (snd (forEachCard cs s))) = documentQuerySelectorAll (dom s)"
proof (induction cs arbitrary: s)
  case Nil
  then show ?case by simp
next
  case (Cons c cs)
  show ?case
  proof (cases "processVideoCard c s")
    case (Pair out s')
    then have "documentQuerySelectorAll (dom s') = documentQuerySelectorAll (dom s)"
      using dqsa_processVideoCard [of c s] by simp
    with Pair Cons.IH [of s'] show ?thesis
      by (cases out) simp_all
  qed
qed

lemma forEachCard_append:
  "forEachCard (xs @ ys) s =
     (case forEachCard xs s of
        (Threw e, s') \<Rightarrow> (Threw e, s')
      | (Returned, s') \<Rightarrow> forEachCard ys s')"
proof (induction xs arbitrary: s)
  case Nil
  then show ?case by simp
next
  case (Cons x xs)
  show ?case
  proof (cases "processVideoCard x s")
    case (Pair out s')
    with Cons.IH [of s'] show ?thesis
      by (cases out) simp_all
  qed
qed

lemma scanLoop_forEachCard:
  "scanLoop sels s = forEachCard (concat (map (documentQuerySelectorAll (dom s)) sels)) s"
proof (induction sels arbitrary: s)
  case Nil
  then show ?case by simp
next
  case (Cons sel sels)
  show ?case
  proof (cases "forEachCard (documentQuerySelectorAll (dom s) sel) s")
    case (Pair out s')
    then have same: "documentQuerySelectorAll (dom s') = documentQuerySelectorAll (dom s)"
      using dqsa_forEachCard [of "documentQuerySelectorAll (dom s) sel" s] by simp
    show ?thesis
    proof (cases out)
      case Returned
      with Pair Cons.IH [of s'] same show ?thesis
        by (simp add: forEachCard_append)
    next
      case (Threw e)
      with Pair show ?thesis
        by (simp add: forEachCard_append)
    qed
  qed
qed

lemma watchTitleLoop_keeps:
  "clean_title td = Some (textContent (elements (dom s) e)) \<Longrightarrow>
   elements (dom (watchTitleLoop vid td sels s)) e = elements (dom s) e \<and>
   replacedThisSession (watchTitleLoop vid td sels s) = replacedThisSession s"
  by (induction sels) (auto simp: Let_def page_defs split: option.splits)

lemma processWatchPageTitle_keeps:
  assumes "\<And>vid td. titlesCache s vid = Some td \<Longrightarrow>
             clean_title td = Some (textContent (elements (dom s) e))"
  shows "elements (dom (processWatchPageTitle s)) e = elements (dom s) e \<and>
         replacedThisSession (processWatchPageTitle s) = replacedThisSession s"
  using assms watchTitleLoop_keeps
  by (auto simp: processWatchPageTitle_def split: option.splits)

text \<open>
  C5, as the script has it. The mapping has the one key \<^verbatim>\<open>abcEFghiJKL\<close>, whose record
  has the field \<^verbatim>\<open>clean_title\<close> with the value \<^verbatim>\<open>Magnus Resigns After 3 Moves\<close>; the
  script is enabled and its counter is 0; the page has one card, not yet processed and
  inside the viewport, whose permalink is \<^verbatim>\<open>https://x/watch?v=abcEFghiJKL\<close> and whose
  title text is \<^verbatim>\<open>YOU WON'T BELIEVE THIS BLUNDER!!!\<close>. After one \<^verbatim>\<open>scanPage\<close>, which
  returns normally, the title text is the clean title, the title element carries the
  replaced flag and the original text as attributes, and the counter is 1.
\<close>

theorem scanPage_scenario:
  assumes "enabled s"
    and "titlesCache s = [''abcEFghiJKL'' \<mapsto> td]"
    and "clean_title td = Some ''Magnus Resigns After 3 Moves''"
    and "concat (map (documentQuerySelectorAll (dom s)) containerSelectors) = [c]"
    and "findVideoLink (dom s) c = Some ''https://x/watch?v=abcEFghiJKL''"
    and "findTitleElement (dom s) c = Some e"
    and "textContent (elements (dom s) e) = ''YOU WON'T BELIEVE THIS BLUNDER!!!''"
    and "isElementVisible (dom s) c"
    and "processedVideoIds s c = None"
    and "replacedThisSession s = 0"
  shows "fst (scanPage s) = Returned \<and>
         textContent (elements (dom (snd (scanPage s))) e) = ''Magnus Resigns After 3 Moves'' \<and>
         getAttribute (dom (snd (scanPage s))) e ''data-honestlevy-replaced'' = Some ''true'' \<and>
         getAttribute (dom (snd (scanPage s))) e ''data-honestlevy-original''
           = Some ''YOU WON'T BELIEVE THIS BLUNDER!!!'' \<and>
         replacedThisSession (snd (scanPage s)) = 1"
proof -
  have id: "extractVideoId (findVideoLink (dom s) c) = Some ''abcEFghiJKL''"
    using assms(5) by (simp add: scenario_id)
  have mem: "processedVideoIds s c \<noteq> Some ''abcEFghiJKL''"
    using assms(9) by simp
  have cache: "titlesCache s ''abcEFghiJKL'' = Some td"
    using assms(2) by simp
  have differs: "textContent (elements (dom s) e) \<noteq> ''Magnus Resigns After 3 Moves''"
    using assms(7) by simp
  note sub = processVideoCard_substitutes [OF id mem cache assms(3) assms(6) assms(8)]
  obtain s1 where card: "processVideoCard c s = (Returned, s1)"
    using sub(1) by (cases "processVideoCard c s") auto
  then have s1: "snd (processVideoCard c s) = s1"
    by simp
  have t1: "textContent (elements (dom s1) e) = ''Magnus Resigns After 3 Moves''"
    using sub(2) by (simp add: s1)
  have n1: "replacedThisSession s1 = 1"
    using sub(3) differs assms(10) by (simp add: s1)
  have a1: "getAttribute (dom s1) e ''data-honestlevy-replaced'' = Some ''true''"
    and o1: "getAttribute (dom s1) e ''data-honestlevy-original''
               = Some ''YOU WON'T BELIEVE THIS BLUNDER!!!''"
    and c1: "titlesCache s1 = titlesCache s"
    using sub(5) [OF differs] assms(7) by (simp_all add: s1)
  have loop: "scanLoop containerSelectors s = (Returned, s1)"
    by (simp add: scanLoop_forEachCard assms(4) card)
  have scan: "scanPage s = (Returned, processWatchPageTitle s1)"
    using assms(1) loop by (simp add: scanPage_def)
  have "clean_title td' = Some (textContent (elements (dom s1) e))"
    if "titlesCache s1 vid = Some td'" for vid td'
    using that c1 assms(2) assms(3) t1 by (auto split: if_splits)
  then have keep: "elements (dom (processWatchPageTitle s1)) e = elements (dom s1) e \<and>
      replacedThisSession (processWatchPageTitle s1) = replacedThisSession s1"
    by (rule processWatchPageTitle_keeps)
  show ?thesis
    using keep t1 n1 a1 o1 by (simp add: scan getAttribute_def)
qed

theorem scanPage_scenario_witness:
  "fst (scanPage (scenarioState codeRecord)) = Returned \<and>
   textContent (elements (dom (snd (scanPage (scenarioState codeRecord)))) 12)
     = ''Magnus Resigns After 3 Moves'' \<and>
   getAttribute (dom (snd (scanPage (scenarioState codeRecord)))) 12 ''data-honestlevy-replaced''
     = Some ''true'' \<and>
   getAttribute (dom (snd (scanPage (scenarioState codeRecord)))) 12 ''data-honestlevy-original''
     = Some ''YOU WON'T BELIEVE THIS BLUNDER!!!'' \<and>
   replacedThisSession (snd (scanPage (scenarioState codeRecord))) = 1"
proof (rule scanPage_scenario [where td = codeRecord and c = 10])
  show "enabled (scenarioState codeRecord)"
    by (simp add: scenarioState_def)
  show "titlesCache (scenarioState codeRecord) = [''abcEFghiJKL'' \<mapsto> codeRecord]"
    by (simp add: scenarioState_def)
  show "clean_title codeRecord = Some ''Magnus Resigns After 3 Moves''"
    by (simp add: clean_title_def codeRecord_def)
  show "concat (map (documentQuerySelectorAll (dom (scenarioState codeRecord))) containerSelectors)
          = [10]"
    by (simp add: scenarioState_def scenarioPage_def cardPage_def containerSelectors_def)
  show "findVideoLink (dom (scenarioState codeRecord)) 10 = Some ''https://x/watch?v=abcEFghiJKL''"
    by (simp add: scenarioState_def scenario_link)
  show "findTitleElement (dom (scenarioState codeRecord)) 10 = Some 12"
    by (simp add: scenarioState_def scenario_title)
  show "textContent (elements (dom (scenarioState codeRecord)) 12)
          = ''YOU WON'T BELIEVE THIS BLUNDER!!!''"
    by (simp add: scenarioState_def scenarioPage_def cardPage_def)
  show "isElementVisible (dom (scenarioState codeRecord)) 10"
    by (simp add: scenarioState_def scenario_visible)
  show "processedVideoIds (scenarioState codeRecord) 10 = None"
    by (simp add: scenarioState_def)
  show "replacedThisSession (scenarioState codeRecord) = 0"
    by (simp add: scenarioState_def)
qed


text \<open>
  The same holds at the scenario's page when the mapping is the plain object, which
  answers for the inherited names as well.
\<close>

lemma scanPage_scenario_plain:
  "fst (scanPage ((scenarioState codeRecord)\<lparr>titlesCache := plainTitles\<rparr>)) = Returned \<and>
   textContent (elements (dom (snd (scanPage
     ((scenarioState codeRecord)\<lparr>titlesCache := plainTitles\<rparr>)))) 12)
     = ''Magnus Resigns After 3 Moves'' \<and>
   replacedThisSession (snd (scanPage ((scenarioState codeRecord)\<lparr>titlesCache := plainTitles\<rparr>)))
     = 1"
  by (simp add: plainTitles_def scan_defs card_defs page_defs extract_defs object_defs
      scenario_defs Let_def)

text \<open>
  The scenario with the record as the specification writes it, with the field
  \<^verbatim>\<open>cleanTitle\<close>: the script reads \<^verbatim>\<open>clean_title\<close>, finds it undefined, empties the
  title and throws.
\<close>

theorem scanPage_scenario_counterexample:
  "titlesCache (scenarioState specRecord)
     = [''abcEFghiJKL'' \<mapsto> [''cleanTitle'' \<mapsto> ''Magnus Resigns After 3 Moves'']] \<and>
   findVideoLink (dom (scenarioState specRecord)) 10 = Some ''https://x/watch?v=abcEFghiJKL'' \<and>
   textContent (elements (dom (scenarioState specRecord)) 12)
     = ''YOU WON'T BELIEVE THIS BLUNDER!!!'' \<and>
   fst (scanPage (scenarioState specRecord)) = Threw TypeError \<and>
   textContent (elements (dom (snd (scanPage (scenarioState specRecord)))) 12) = [] \<and>
   textContent (elements (dom (snd (scanPage (scenarioState specRecord)))) 12)
     \<noteq> ''Magnus Resigns After 3 Moves''"
  by (simp add: scan_defs card_defs page_defs extract_defs scenarioState_def scenarioPage_def
      cardPage_def specRecord_def Let_def)

subsection \<open>A script that starts disabled\<close>

lemma callScanPage_wiring:
  "observing (snd (callScanPage rt)) = observing rt"
  "listening (snd (callScanPage rt)) = listening rt"
  "honestLevyScanTimeout (snd (callScanPage rt)) = honestLevyScanTimeout rt"
  "navigationTimeouts (snd (callScanPage rt)) = navigationTimeouts rt"
  "scrollTimeout (snd (callScanPage rt)) = scrollTimeout rt"
  "scans (snd (callScanPage rt)) = scans rt + 1"
  by (simp_all add: callScanPage_def split: prod.splits)

lemma unwired_callScanPage: "unwired (snd (callScanPage rt)) = unwired rt"
  by (simp add: unwired_def callScanPage_wiring)

lemma callScanPage_eq:
  "callScanPage rt =
     (fst (scanPage (script rt)), rt\<lparr>script := snd (scanPage (script rt)), scans := scans rt + 1\<rparr>)"
  by (simp add: callScanPage_def split: prod.splits)

lemma unwired_onStorageChanged: "unwired rt \<Longrightarrow> unwired (onStorageChanged ch ns rt)"
  by (auto simp: onStorageChanged_def Let_def callScanPage_eq unwired_def
      split: option.splits outcome.splits)

lemma unwired_dispatch: "unwired rt \<Longrightarrow> unwired (dispatch e rt)"
  by (cases e) (simp_all add: unwired_onStorageChanged, simp_all add: unwired_def)

lemma unwired_run: "unwired rt \<Longrightarrow> unwired (run es rt)"
  by (induction es arbitrary: rt) (simp_all add: unwired_dispatch)

lemma scans_dispatch: "unwired rt \<Longrightarrow> fromPage e \<Longrightarrow> scans (dispatch e rt) = scans rt"
  by (cases e) (simp_all add: unwired_def)

lemma scans_run: "unwired rt \<Longrightarrow> list_all fromPage es \<Longrightarrow> scans (run es rt) = scans rt"
  by (induction es arbitrary: rt) (simp_all add: unwired_dispatch scans_dispatch)

lemma enabled_processVideoCard: "enabled (snd (processVideoCard c s)) = enabled s"
  by (simp add: processVideoCard_def Let_def split: option.splits)

lemma enabled_forEachCard: "enabled (snd (forEachCard cs s)) = enabled s"
proof (induction cs arbitrary: s)
  case Nil
  then show ?case by simp
next
  case (Cons c cs)
  show ?case
  proof (cases "processVideoCard c s")
    case (Pair out s')
    then have "enabled s' = enabled s"
      using enabled_processVideoCard [of c s] by simp
    with Pair Cons.IH [of s'] show ?thesis
      by (cases out) simp_all
  qed
qed

lemma enabled_scanLoop: "enabled (snd (scanLoop sels s)) = enabled s"
proof (induction sels arbitrary: s)
  case Nil
  then show ?case by simp
next
  case (Cons sel sels)
  show ?case
  proof (cases "forEachCard (documentQuerySelectorAll (dom s) sel) s")
    case (Pair out s')
    then have "enabled s' = enabled s"
      using enabled_forEachCard [of "documentQuerySelectorAll (dom s) sel" s] by simp
    with Pair Cons.IH [of s'] show ?thesis
      by (cases out) simp_all
  qed
qed

lemma enabled_watchTitleLoop: "enabled (watchTitleLoop vid td sels s) = enabled s"
  by (induction sels) (simp_all add: Let_def split: option.splits)

lemma enabled_processWatchPageTitle: "enabled (processWatchPageTitle s) = enabled s"
  by (simp add: processWatchPageTitle_def enabled_watchTitleLoop split: option.splits)

lemma enabled_scanPage: "enabled (snd (scanPage s)) = enabled s"
proof (cases "scanLoop containerSelectors s")
  case (Pair out s')
  then have "enabled s' = enabled s"
    using enabled_scanLoop [of containerSelectors s] by simp
  with Pair show ?thesis
    by (cases out) (simp_all add: scanPage_def enabled_processWatchPageTitle)
qed

lemma init_disabled:
  "response_enabled r = Some False \<Longrightarrow>
     unwired (init (Some r) (loaded p)) \<and> scans (init (Some r) (loaded p)) = 0 \<and>
     \<not> enabled (script (init (Some r) (loaded p)))"
  by (simp add: init_def received_def loaded_def unwired_def Let_def)

text \<open>
  C10. When the answer to \<^verbatim>\<open>getTitles\<close> has \<^verbatim>\<open>enabled\<close> false, \<^verbatim>\<open>init\<close> returns
  without a scan and without wiring. A later push of the settings that sets \<^verbatim>\<open>enabled\<close>
  to true calls \<^verbatim>\<open>scanPage\<close> once and turns the flag on. After it, whatever events
  follow (\<open>es'\<close>), the observer and the listeners are never installed; and when the
  events come from the page alone (\<open>es\<close>: mutations, navigations, scrolls, timers, the
  host rendering), \<^verbatim>\<open>scanPage\<close> is not called again.
\<close>

theorem enabled_later_never_wired:
  assumes "response_enabled r = Some False"
    and "list_all fromPage es"
  shows "scans (init (Some r) (loaded p)) = 0 \<and>
         scans (dispatch enablePush (init (Some r) (loaded p))) = 1 \<and>
         enabled (script (dispatch enablePush (init (Some r) (loaded p)))) \<and>
         \<not> observing (run es' (dispatch enablePush (init (Some r) (loaded p)))) \<and>
         \<not> listening (run es' (dispatch enablePush (init (Some r) (loaded p)))) \<and>
         scans (run es (dispatch enablePush (init (Some r) (loaded p)))) = 1"
proof -
  let ?rt1 = "init (Some r) (loaded p)"
  let ?rt2 = "dispatch enablePush ?rt1"
  have u1: "unwired ?rt1" and n1: "scans ?rt1 = 0"
    using init_disabled [OF assms(1)] by simp_all
  have u2: "unwired ?rt2"
    using u1 by (rule unwired_dispatch)
  have n2: "scans ?rt2 = 1"
    using n1 by (simp add: enablePush_def onStorageChanged_def Let_def callScanPage_eq split: outcome.splits)
  have e2: "enabled (script ?rt2)"
    by (simp add: enablePush_def onStorageChanged_def Let_def callScanPage_eq enabled_scanPage
        split: outcome.splits)
  have "unwired (run es' ?rt2)"
    using u2 by (rule unwired_run)
  then have w: "\<not> observing (run es' ?rt2)" "\<not> listening (run es' ?rt2)"
    by (simp_all add: unwired_def)
  have "scans (run es ?rt2) = scans ?rt2"
    using u2 assms(2) by (rule scans_run)
  then show ?thesis
    using n1 n2 e2 w by simp
qed


theorem enabled_later_never_wired_witness:
  "scans (init (Some disabledResponse) (loaded scenarioPage)) = 0 \<and>
   scans (dispatch enablePush (init (Some disabledResponse) (loaded scenarioPage))) = 1 \<and>
   enabled (script (dispatch enablePush (init (Some disabledResponse) (loaded scenarioPage)))) \<and>
   \<not> observing (run pageEvents
        (dispatch enablePush (init (Some disabledResponse) (loaded scenarioPage)))) \<and>
   \<not> listening (run pageEvents
        (dispatch enablePush (init (Some disabledResponse) (loaded scenarioPage)))) \<and>
   scans (run pageEvents
        (dispatch enablePush (init (Some disabledResponse) (loaded scenarioPage)))) = 1"
proof (rule enabled_later_never_wired)
  show "response_enabled disabledResponse = Some False"
    by (simp add: disabledResponse_def)
  show "list_all fromPage pageEvents"
    by (simp add: pageEvents_def)
qed

subsection \<open>Navigation\<close>

lemma dqs_setTextContent [simp]:
  "documentQuerySelector (setTextContent n t p) = documentQuerySelector p"
  by (simp add: setTextContent_def)

lemma dqs_setAttribute [simp]:
  "documentQuerySelector (setAttribute n a v p) = documentQuerySelector p"
  by (simp add: setAttribute_def)















end
